theory Spec2Isabelle
  imports Main "HOL-Library.Word"
begin

section \<open>The DHCPv6 client of internal/dhcp6/dhcp6.go\<close>

text \<open>
  The client of \<^verbatim>\<open>dhcp6.go\<close> drives the exchanges Solicit/Advertise,
  Request/Reply and Release/Reply over a \<^verbatim>\<open>net.PacketConn\<close>. The messages, their
  options and their wire format belong to the package \<^verbatim>\<open>dhcpv6\<close>, which the
  client imports. Its data types are written out below as far as the client reads them;
  its constructors and its wire codec are a parameter (\<open>Library\<close>) of every operation.
\<close>

subsection \<open>Data of the imported packages\<close>

type_synonym bytes = "8 word list"

text \<open>\<^verbatim>\<open>dhcpv6.TransactionID\<close> is \<^verbatim>\<open>[3]byte\<close>; Go compares arrays element by element.\<close>

type_synonym TransactionID = "8 word \<times> 8 word \<times> 8 word"

text \<open>
  \<^verbatim>\<open>dhcpv6.MessageType\<close>: the message types of RFC 8415 and RFC 5007, with
  \<^verbatim>\<open>MessageTypeNone\<close> for the value 0.
\<close>

datatype MessageType =
    MessageTypeNone
  | MessageTypeSolicit
  | MessageTypeAdvertise
  | MessageTypeRequest
  | MessageTypeConfirm
  | MessageTypeRenew
  | MessageTypeRebind
  | MessageTypeReply
  | MessageTypeRelease
  | MessageTypeDecline
  | MessageTypeReconfigure
  | MessageTypeInformationRequest
  | MessageTypeRelayForward
  | MessageTypeRelayReply
  | MessageTypeLeaseQuery
  | MessageTypeLeaseQueryReply
  | MessageTypeLeaseQueryDone
  | MessageTypeLeaseQueryData

text \<open>
  \<^verbatim>\<open>time.Time\<close> and \<^verbatim>\<open>time.Duration\<close> in nanoseconds; a \<^verbatim>\<open>time.Time\<close> counts from
  the zero time (January 1, year 1, 00:00 UTC), the value of an unset \<^verbatim>\<open>time.Time\<close>,
  and may lie before it.
\<close>

type_synonym Time = int
type_synonym Duration = int

definition zeroTime :: Time where
  "zeroTime = 0"

definition IsZero :: "Time \<Rightarrow> bool" where
  "IsZero t = (t = zeroTime)"

definition Before :: "Time \<Rightarrow> Time \<Rightarrow> bool" where
  "Before t u = (t < u)"

definition Add :: "Time \<Rightarrow> Duration \<Rightarrow> Time" where
  "Add t d = t + d"

definition Minute :: Duration where
  "Minute = 60 * 1000000000"

definition Hour :: Duration where
  "Hour = 60 * Minute"

type_synonym IP = bytes

record IPNet =
  IP :: IP
  Mask :: bytes

type_synonym Duid = bytes
type_synonym HardwareAddr = bytes

text \<open>
  \<^verbatim>\<open>dhcpv6.OptIAPrefix\<close>: its \<^verbatim>\<open>Prefix\<close> is a pointer (\<^verbatim>\<open>*net.IPNet\<close>) and may be
  nil.
\<close>

record OptIAPrefix =
  PreferredLifetime :: Duration
  ValidLifetime :: Duration
  Prefix :: "IPNet option"

text \<open>The options an IA\_PD carries: prefixes and others (code and data).\<close>

datatype PDOption =
    PDOptIAPrefix OptIAPrefix
  | PDOptGeneric nat bytes

record OptIAPD =
  IaId :: bytes
  T1 :: Duration
  T2 :: Duration
  PDOptions :: "PDOption list"

datatype Option =
    OptionIAPD OptIAPD
  | OptionDNS "IP list"
  | OptionClientID Duid
  | OptionServerID Duid
  | OptionGeneric nat bytes

record Message =
  MessageType :: MessageType
  TransactionID :: TransactionID
  Options :: "Option list"

text \<open>
  Modelled from the spec: \<^verbatim>\<open>Message.AddOption\<close> of package dhcpv6 (not under src/)
  appends the option to the message's option list.
\<close>

definition AddOption :: "Message \<Rightarrow> Option \<Rightarrow> Message" where
  "AddOption m opt = m\<lparr>Options := Options m @ [opt]\<rparr>"

text \<open>
  Modelled from the spec: \<^verbatim>\<open>MessageOptions.IAPD\<close> of package dhcpv6 (not under src/)
  returns every prefix-delegation identity association of the option list, in encounter
  order.
\<close>

fun IAPD :: "Option list \<Rightarrow> OptIAPD list" where
  "IAPD [] = []"
| "IAPD (OptionIAPD ia # os) = ia # IAPD os"
| "IAPD (_ # os) = IAPD os"

text \<open>
  Modelled from the spec: \<^verbatim>\<open>MessageOptions.OneIAPD\<close> of package dhcpv6 (not under src/)
  returns the first prefix-delegation identity association, nil when there is none.
\<close>

definition OneIAPD :: "Option list \<Rightarrow> OptIAPD option" where
  "OneIAPD os = (case IAPD os of [] \<Rightarrow> None | ia # _ \<Rightarrow> Some ia)"

text \<open>
  Modelled from the spec: \<^verbatim>\<open>PDOptions.Prefixes\<close> of package dhcpv6 (not under src/)
  returns every delegated prefix option of an identity association, in encounter order.
\<close>

fun Prefixes_of :: "PDOption list \<Rightarrow> OptIAPrefix list" where
  "Prefixes_of [] = []"
| "Prefixes_of (PDOptIAPrefix p # os) = p # Prefixes_of os"
| "Prefixes_of (_ # os) = Prefixes_of os"

text \<open>
  Modelled from the spec: \<^verbatim>\<open>MessageOptions.DNS\<close> of package dhcpv6 (not under src/)
  returns the name-server addresses of the name-server options, in encounter order.
\<close>

fun DNS_of :: "Option list \<Rightarrow> IP list" where
  "DNS_of [] = []"
| "DNS_of (OptionDNS ips # os) = ips @ DNS_of os"
| "DNS_of (_ # os) = DNS_of os"

subsection \<open>Errors\<close>

text \<open>
  The values of Go's \<^verbatim>\<open>error\<close> that reach the client: its own error for a nil packet,
  the errors of the connection (the deadline's timeout and any other I/O failure) and
  the errors of package dhcpv6 (\<open>NoActiveLease\<close> names the one for an absent Advertise).
\<close>

datatype error =
    PacketNil
  | Timeout
  | TransportError string
  | CodecError string
  | NoActiveLease

subsection \<open>The imported functions\<close>

text \<open>
  The functions of package dhcpv6 and of \<^verbatim>\<open>net\<close> that the client calls and that are not
  under src/. The message constructors draw a random TransactionID: the drawn value is
  their last argument here.
\<close>

record Library =
  NewSolicit :: "HardwareAddr \<Rightarrow> Duid \<Rightarrow> TransactionID \<Rightarrow> error + Message"
  NewRequestFromAdvertise :: "Message option \<Rightarrow> Duid \<Rightarrow> TransactionID \<Rightarrow> error + Message"
  MessageFromBytes :: "bytes \<Rightarrow> error + Message"
  ToBytes :: "Message \<Rightarrow> bytes"
  IPString :: "IP \<Rightarrow> string"

subsection \<open>The connection\<close>

text \<open>
  A \<^verbatim>\<open>net.PacketConn\<close> as the client sees it. \<open>inbound\<close> holds what the reads deliver
  before the read deadline, a datagram or an error each; a read after the last of them
  meets the deadline and fails with \<open>Timeout\<close>. \<open>write_results\<close> holds the results of
  the coming writes (a write after the last of them succeeds). \<open>calls\<close> records every
  call made on the connection, in order.
\<close>

datatype conn_call =
    CallSetWriteDeadline
  | CallWriteTo bytes
  | CallSetReadDeadline
  | CallReadFrom

record PacketConn =
  inbound :: "(error + bytes) list"
  write_results :: "error option list"
  calls :: "conn_call list"

definition SetWriteDeadline :: "PacketConn \<Rightarrow> PacketConn" where
  "SetWriteDeadline conn = conn\<lparr>calls := calls conn @ [CallSetWriteDeadline]\<rparr>"

definition SetReadDeadline :: "PacketConn \<Rightarrow> PacketConn" where
  "SetReadDeadline conn = conn\<lparr>calls := calls conn @ [CallSetReadDeadline]\<rparr>"

definition WriteTo :: "PacketConn \<Rightarrow> bytes \<Rightarrow> error option \<times> PacketConn" where
  "WriteTo conn b =
     (case write_results conn of
        [] \<Rightarrow> (None, conn\<lparr>calls := calls conn @ [CallWriteTo b]\<rparr>)
      | r # rs \<Rightarrow> (r, conn\<lparr>write_results := rs, calls := calls conn @ [CallWriteTo b]\<rparr>))"

definition maxUDPReceivedPacketSize :: nat where
  "maxUDPReceivedPacketSize = 8192"

text \<open>
  \<^verbatim>\<open>ReadFrom(buf)\<close> with a buffer of \<open>n\<close> bytes: a longer datagram is cut to the
  buffer. The result is \<^verbatim>\<open>buf[:n]\<close>.
\<close>

definition ReadFrom :: "PacketConn \<Rightarrow> nat \<Rightarrow> (error + bytes) \<times> PacketConn" where
  "ReadFrom conn n =
     (case inbound conn of
        [] \<Rightarrow> (Inl Timeout, conn\<lparr>calls := calls conn @ [CallReadFrom]\<rparr>)
      | r # rs \<Rightarrow>
          (case r of
             Inl e \<Rightarrow> (Inl e, conn\<lparr>inbound := rs, calls := calls conn @ [CallReadFrom]\<rparr>)
           | Inr d \<Rightarrow> (Inr (take n d), conn\<lparr>inbound := rs, calls := calls conn @ [CallReadFrom]\<rparr>)))"

subsection \<open>The client\<close>

record Config =
  RenewAfter :: Time
  Prefixes :: "IPNet list"
  DNS :: "string list"

text \<open>The zero value of \<^verbatim>\<open>Config\<close> (\<^verbatim>\<open>var newCfg Config\<close>).\<close>

definition zeroConfig :: Config where
  "zeroConfig = \<lparr>RenewAfter = zeroTime, Prefixes = [], DNS = []\<rparr>"

text \<open>
  The fields of \<^verbatim>\<open>Client\<close> that the operations read or write. \<open>timeNow c k\<close> is what
  the call of \<^verbatim>\<open>c.timeNow()\<close> returns that \<^verbatim>\<open>ObtainOrRenew\<close> makes after \<open>k\<close> earlier
  ones. \<open>duid\<close> is never nil: \<^verbatim>\<open>NewClient\<close> always sets it.
\<close>

record Client =
  hardwareAddr :: HardwareAddr
  timeNow :: "nat \<Rightarrow> Time"
  duid :: Duid
  advertise :: "Message option"
  cfg :: Config
  err :: "error option"
  Conn :: PacketConn
  transactionIDs :: "TransactionID list"

subsection \<open>sendReceive\<close>

text \<open>Lines 173 to 184: the expected type inferred from the packet being sent.\<close>

definition inferExpectedType :: "Message \<Rightarrow> MessageType \<Rightarrow> MessageType" where
  "inferExpectedType packet expectedType =
     (if expectedType = MessageTypeNone then
        (if MessageType packet = MessageTypeSolicit then MessageTypeAdvertise
         else if MessageType packet = MessageTypeRequest then MessageTypeReply
         else if MessageType packet = MessageTypeRelayForward then MessageTypeRelayReply
         else if MessageType packet = MessageTypeLeaseQuery then MessageTypeLeaseQueryReply
         else expectedType)
      else expectedType)"

text \<open>
  Lines 197 to 220: the receive loop. It ends because every read takes one entry of
  \<open>inbound\<close> and a read of an empty \<open>inbound\<close> fails.
\<close>

function receiveLoop ::
  "Library \<Rightarrow> Message \<Rightarrow> MessageType \<Rightarrow> PacketConn \<Rightarrow> (error + Message) \<times> PacketConn" where
  "receiveLoop lib packet expectedType conn =
     (case ReadFrom conn maxUDPReceivedPacketSize of
        (Inl e, conn') \<Rightarrow> (Inl e, conn')
      | (Inr buf, conn') \<Rightarrow>
          (case MessageFromBytes lib buf of
             Inl e \<Rightarrow> receiveLoop lib packet expectedType conn'
           | Inr adv \<Rightarrow>
               if TransactionID packet \<noteq> TransactionID adv
               then receiveLoop lib packet expectedType conn'
               else if expectedType = MessageTypeNone then (Inr adv, conn')
               else if MessageType adv = expectedType then (Inr adv, conn')
               else receiveLoop lib packet expectedType conn'))"
  by pat_completeness auto

termination receiveLoop
  by (relation "measure (\<lambda>(lib, packet, expectedType, conn). length (inbound conn))")
     (auto simp: ReadFrom_def split: list.splits sum.splits)

declare receiveLoop.simps [simp del]

definition sendReceive ::
  "Library \<Rightarrow> Client \<Rightarrow> Message option \<Rightarrow> MessageType \<Rightarrow> (error + Message) \<times> Client" where
  "sendReceive lib c packet expectedType =
     (case packet of
        None \<Rightarrow> (Inl PacketNil, c)
      | Some p \<Rightarrow>
          (let expectedType' = inferExpectedType p expectedType;
               conn1 = SetWriteDeadline (Conn c);
               (werr, conn2) = WriteTo conn1 (ToBytes lib p)
           in case werr of
                Some e \<Rightarrow> (Inl e, c\<lparr>Conn := conn2\<rparr>)
              | None \<Rightarrow>
                  (let conn3 = SetReadDeadline conn2;
                       (r, conn4) = receiveLoop lib p expectedType' conn3
                   in (r, c\<lparr>Conn := conn4\<rparr>))))"

text \<open>What Go's pair \<^verbatim>\<open>(message, err)\<close> holds for a result of \<open>sendReceive\<close>.\<close>

definition replyOf :: "error + Message \<Rightarrow> Message option" where
  "replyOf r = (case r of Inl e \<Rightarrow> None | Inr m \<Rightarrow> Some m)"

definition errOf :: "error + Message \<Rightarrow> error option" where
  "errOf r = (case r of Inl e \<Rightarrow> Some e | Inr m \<Rightarrow> None)"

subsection \<open>solicit, request, Release\<close>

text \<open>
  Each returns Go's triple (message sent, reply, error) and the client after the call.
  \<open>xid\<close> is the TransactionID that the message constructor draws.
\<close>

type_synonym exchange = "Message option \<times> Message option \<times> error option"

definition solicit ::
  "Library \<Rightarrow> TransactionID \<Rightarrow> Client \<Rightarrow> Message option \<Rightarrow> exchange \<times> Client" where
  "solicit lib xid c solicit0 =
     (case (case solicit0 of
              None \<Rightarrow> NewSolicit lib (hardwareAddr c) (duid c) xid
            | Some s \<Rightarrow> Inr s) of
        Inl e \<Rightarrow> ((None, None, Some e), c)
      | Inr s \<Rightarrow>
          (let (s1, c1) =
                 (case transactionIDs c of
                    [] \<Rightarrow> (s, c)
                  | tid # tids \<Rightarrow> (s\<lparr>TransactionID := tid\<rparr>, c\<lparr>transactionIDs := tids\<rparr>));
               s2 = AddOption s1
                      (OptionIAPD \<lparr>IaId = [0, 0, 0, 1], T1 = 0, T2 = 0, PDOptions = []\<rparr>);
               (r, c2) = sendReceive lib c1 (Some s2) MessageTypeNone
           in ((Some s2, replyOf r, errOf r), c2)))"

text \<open>
  \<open>request\<close> dereferences \<open>advertise\<close> after the constructor has accepted it: the
  result \<open>None\<close> is the panic of a nil dereference.
\<close>

definition request ::
  "Library \<Rightarrow> TransactionID \<Rightarrow> Client \<Rightarrow> Message option \<Rightarrow> (exchange \<times> Client) option" where
  "request lib xid c advertise0 =
     (case NewRequestFromAdvertise lib advertise0 (duid c) xid of
        Inl e \<Rightarrow> Some ((None, None, Some e), c)
      | Inr req \<Rightarrow>
          (case advertise0 of
             None \<Rightarrow> None
           | Some adv \<Rightarrow>
               (let req1 = (case OneIAPD (Options adv) of
                              None \<Rightarrow> req
                            | Some iapd \<Rightarrow> AddOption req (OptionIAPD iapd));
                    (req2, c1) =
                      (case transactionIDs c of
                         [] \<Rightarrow> (req1, c)
                       | tid # tids \<Rightarrow> (req1\<lparr>TransactionID := tid\<rparr>, c\<lparr>transactionIDs := tids\<rparr>));
                    (r, c2) = sendReceive lib c1 (Some req2) MessageTypeNone
                in Some ((Some req2, replyOf r, errOf r), c2))))"

definition Release :: "Library \<Rightarrow> TransactionID \<Rightarrow> Client \<Rightarrow> exchange \<times> Client" where
  "Release lib xid c =
     (case NewRequestFromAdvertise lib (advertise c) (duid c) xid of
        Inl e \<Rightarrow> ((None, None, Some e), c)
      | Inr rel \<Rightarrow>
          (let rel1 = rel\<lparr>MessageType := MessageTypeRelease\<rparr>;
               (rel2, c1) =
                 (case transactionIDs c of
                    [] \<Rightarrow> (rel1, c)
                  | tid # tids \<Rightarrow> (rel1\<lparr>TransactionID := tid\<rparr>, c\<lparr>transactionIDs := tids\<rparr>));
               (r, c2) = sendReceive lib c1 (Some rel2) MessageTypeNone
           in ((Some rel2, replyOf r, errOf r), c2)))"

subsection \<open>ObtainOrRenew\<close>

text \<open>
  Lines 280 to 282: \<^verbatim>\<open>*prefix.Prefix\<close> dereferences a pointer; the result \<open>None\<close> is the
  panic on a nil one.
\<close>

fun prefixLoop :: "OptIAPrefix list \<Rightarrow> IPNet list \<Rightarrow> IPNet list option" where
  "prefixLoop [] acc = Some acc"
| "prefixLoop (prefix # rest) acc =
     (case Prefix prefix of
        None \<Rightarrow> None
      | Some net \<Rightarrow> prefixLoop rest (acc @ [net]))"

text \<open>Lines 275 to 283; \<open>k\<close> counts the calls of \<^verbatim>\<open>c.timeNow()\<close> made so far.\<close>

fun iapdLoop :: "(nat \<Rightarrow> Time) \<Rightarrow> nat \<Rightarrow> OptIAPD list \<Rightarrow> Config \<Rightarrow> Config option" where
  "iapdLoop now k [] newCfg = Some newCfg"
| "iapdLoop now k (iapd # rest) newCfg =
     (let t1 = Add (now k) (T1 iapd);
          newCfg1 = (if Before t1 (RenewAfter newCfg) \<or> IsZero (RenewAfter newCfg)
                     then newCfg\<lparr>RenewAfter := t1\<rparr> else newCfg)
      in case prefixLoop (Prefixes_of (PDOptions iapd)) (Prefixes newCfg1) of
           None \<Rightarrow> None
         | Some ps \<Rightarrow> iapdLoop now (Suc k) rest (newCfg1\<lparr>Prefixes := ps\<rparr>))"

text \<open>Lines 284 to 286.\<close>

fun dnsLoop :: "Library \<Rightarrow> IP list \<Rightarrow> Config \<Rightarrow> Config" where
  "dnsLoop lib [] newCfg = newCfg"
| "dnsLoop lib (dns # rest) newCfg =
     dnsLoop lib rest (newCfg\<lparr>DNS := DNS newCfg @ [IPString lib dns]\<rparr>)"

text \<open>Lines 274 to 286: the configuration that \<^verbatim>\<open>ObtainOrRenew\<close> reads from a Reply.\<close>

definition extractConfig :: "Library \<Rightarrow> (nat \<Rightarrow> Time) \<Rightarrow> Message \<Rightarrow> Config option" where
  "extractConfig lib now reply =
     (case iapdLoop now 0 (IAPD (Options reply)) zeroConfig of
        None \<Rightarrow> None
      | Some newCfg \<Rightarrow> Some (dnsLoop lib (DNS_of (Options reply)) newCfg))"

text \<open>
  \<open>xid1\<close> and \<open>xid2\<close> are the TransactionIDs drawn for the Solicit and for the
  Request. The result \<open>None\<close> is a panic.
\<close>

definition ObtainOrRenew ::
  "Library \<Rightarrow> TransactionID \<Rightarrow> TransactionID \<Rightarrow> Client \<Rightarrow> (bool \<times> Client) option" where
  "ObtainOrRenew lib xid1 xid2 c =
     (let c0 = c\<lparr>err := None\<rparr>;
          ((sol, advertise1, err1), c1) = solicit lib xid1 c0 None
      in case err1 of
           Some e \<Rightarrow> Some (True, c1\<lparr>err := Some e\<rparr>)
         | None \<Rightarrow>
             (let c2 = c1\<lparr>advertise := advertise1\<rparr>
              in case request lib xid2 c2 advertise1 of
                   None \<Rightarrow> None
                 | Some ((req, reply, err2), c3) \<Rightarrow>
                     (case err2 of
                        Some e \<Rightarrow> Some (True, c3\<lparr>err := Some e\<rparr>)
                      | None \<Rightarrow>
                          (case reply of
                             None \<Rightarrow> None
                           | Some rep \<Rightarrow>
                               (case extractConfig lib (timeNow c3) rep of
                                  None \<Rightarrow> None
                                | Some newCfg \<Rightarrow> Some (True, c3\<lparr>cfg := newCfg\<rparr>))))))"

definition Err :: "Client \<Rightarrow> error option" where
  "Err c = err c"

definition Config :: "Client \<Rightarrow> Config" where
  "Config c = cfg c"

subsection \<open>Notions used in the statements\<close>

text \<open>
  A datagram matches an exchange when the bytes read from it decode, the decoded message
  carries the TransactionID of the packet sent, and its type is the expected one when an
  expected type is in effect.
\<close>

definition matching :: "Library \<Rightarrow> Message \<Rightarrow> MessageType \<Rightarrow> bytes \<Rightarrow> bool" where
  "matching lib packet expectedType d =
     (case MessageFromBytes lib (take maxUDPReceivedPacketSize d) of
        Inl e \<Rightarrow> False
      | Inr adv \<Rightarrow>
          TransactionID adv = TransactionID packet \<and>
          (expectedType = MessageTypeNone \<or> MessageType adv = expectedType))"

text \<open>The message a datagram decodes to, for a datagram that decodes.\<close>

definition decoded :: "Library \<Rightarrow> bytes \<Rightarrow> Message option" where
  "decoded lib d =
     (case MessageFromBytes lib (take maxUDPReceivedPacketSize d) of
        Inl e \<Rightarrow> None
      | Inr adv \<Rightarrow> Some adv)"

text \<open>The identity association that \<open>solicit\<close> adds: \<^verbatim>\<open>&dhcpv6.OptIAPD{IaId: [4]byte{0, 0, 0, 1}}\<close>.\<close>

definition solicitIAPD :: Option where
  "solicitIAPD = OptionIAPD \<lparr>IaId = [0, 0, 0, 1], T1 = 0, T2 = 0, PDOptions = []\<rparr>"

text \<open>The earliest of the deadlines \<open>now + T1\<close> of a non-empty list of associations.\<close>

definition minDeadline :: "Time \<Rightarrow> OptIAPD list \<Rightarrow> Time" where
  "minDeadline now ias = Min (set (map (\<lambda>ia. Add now (T1 ia)) ias))"

text \<open>The next write on the connection succeeds.\<close>

definition writeSucceeds :: "PacketConn \<Rightarrow> bool" where
  "writeSucceeds conn = (case write_results conn of [] \<Rightarrow> True | r # rs \<Rightarrow> r = None)"

text \<open>
  The fixed table of the expected reply types: Solicit to Advertise, Request to Reply,
  RelayForward to RelayReply, LeaseQuery to LeaseQueryReply, none for any other type.
\<close>

definition expectedTypeTable :: "MessageType \<Rightarrow> MessageType" where
  "expectedTypeTable t =
     (case t of
        MessageTypeSolicit \<Rightarrow> MessageTypeAdvertise
      | MessageTypeRequest \<Rightarrow> MessageTypeReply
      | MessageTypeRelayForward \<Rightarrow> MessageTypeRelayReply
      | MessageTypeLeaseQuery \<Rightarrow> MessageTypeLeaseQueryReply
      | _ \<Rightarrow> MessageTypeNone)"

text \<open>
  Lines 232 to 236, 251 to 255 and 298 to 302: the message with the first queued
  TransactionID stamped on it, if one is queued, and the client with that one taken off.
\<close>

definition stamp :: "Client \<Rightarrow> Message \<Rightarrow> Message" where
  "stamp c m = (case transactionIDs c of [] \<Rightarrow> m | tid # tids \<Rightarrow> m\<lparr>TransactionID := tid\<rparr>)"

definition popped :: "Client \<Rightarrow> Client" where
  "popped c = (case transactionIDs c of [] \<Rightarrow> c | tid # tids \<Rightarrow> c\<lparr>transactionIDs := tids\<rparr>)"

text \<open>A clock that reads \<open>now\<close> at every call.\<close>

definition fixedClock :: "Time \<Rightarrow> nat \<Rightarrow> Time" where
  "fixedClock now k = now"

text \<open>
  The two steps of \<open>ObtainOrRenew\<close>: the Solicit on the client with its error
  cleared, and the Request on the client that the Solicit leaves, with the Advertise
  retained. \<open>stepError\<close> and \<open>stepReply\<close> read the error and the reply of a step.
\<close>

definition solicitStep :: "Library \<Rightarrow> TransactionID \<Rightarrow> Client \<Rightarrow> exchange \<times> Client" where
  "solicitStep lib xid1 c = solicit lib xid1 (c\<lparr>err := None\<rparr>) None"

definition requestStep ::
  "Library \<Rightarrow> TransactionID \<Rightarrow> TransactionID \<Rightarrow> Client \<Rightarrow> (exchange \<times> Client) option" where
  "requestStep lib xid1 xid2 c =
     (case solicitStep lib xid1 c of
        ((sol, adv, e), c1) \<Rightarrow> request lib xid2 (c1\<lparr>advertise := adv\<rparr>) adv)"

definition stepError :: "exchange \<times> Client \<Rightarrow> error option" where
  "stepError x = snd (snd (fst x))"



subsection \<open>A library to run the client on\<close>

text \<open>
  Modelled from the spec: the Message Codec of package dhcpv6 (not under src/).
  \<^verbatim>\<open>newSolicit\<close> builds a Solicit that carries the client identity,
  \<^verbatim>\<open>newRequestFromAdvertise\<close> builds a Request from an Advertise and fails with
  \<open>NoActiveLease\<close> if the Advertise is absent, \<^verbatim>\<open>decode\<close> and \<^verbatim>\<open>encode\<close> are the wire
  codec. The wire form here is the header of RFC 8415, the type and the three bytes of the
  TransactionID; it carries no options.
\<close>

definition typeCode :: "MessageType \<Rightarrow> 8 word" where
  "typeCode t =
     (case t of
        MessageTypeNone \<Rightarrow> 0
      | MessageTypeSolicit \<Rightarrow> 1
      | MessageTypeAdvertise \<Rightarrow> 2
      | MessageTypeRequest \<Rightarrow> 3
      | MessageTypeConfirm \<Rightarrow> 4
      | MessageTypeRenew \<Rightarrow> 5
      | MessageTypeRebind \<Rightarrow> 6
      | MessageTypeReply \<Rightarrow> 7
      | MessageTypeRelease \<Rightarrow> 8
      | MessageTypeDecline \<Rightarrow> 9
      | MessageTypeReconfigure \<Rightarrow> 10
      | MessageTypeInformationRequest \<Rightarrow> 11
      | MessageTypeRelayForward \<Rightarrow> 12
      | MessageTypeRelayReply \<Rightarrow> 13
      | MessageTypeLeaseQuery \<Rightarrow> 14
      | MessageTypeLeaseQueryReply \<Rightarrow> 15
      | MessageTypeLeaseQueryDone \<Rightarrow> 16
      | MessageTypeLeaseQueryData \<Rightarrow> 17)"

definition typeOfCode :: "8 word \<Rightarrow> MessageType option" where
  "typeOfCode w =
     (if w = 1 then Some MessageTypeSolicit
      else if w = 2 then Some MessageTypeAdvertise
      else if w = 3 then Some MessageTypeRequest
      else if w = 4 then Some MessageTypeConfirm
      else if w = 5 then Some MessageTypeRenew
      else if w = 6 then Some MessageTypeRebind
      else if w = 7 then Some MessageTypeReply
      else if w = 8 then Some MessageTypeRelease
      else if w = 9 then Some MessageTypeDecline
      else if w = 10 then Some MessageTypeReconfigure
      else if w = 11 then Some MessageTypeInformationRequest
      else if w = 12 then Some MessageTypeRelayForward
      else if w = 13 then Some MessageTypeRelayReply
      else if w = 14 then Some MessageTypeLeaseQuery
      else if w = 15 then Some MessageTypeLeaseQueryReply
      else if w = 16 then Some MessageTypeLeaseQueryDone
      else if w = 17 then Some MessageTypeLeaseQueryData
      else None)"

definition newSolicit :: "HardwareAddr \<Rightarrow> Duid \<Rightarrow> TransactionID \<Rightarrow> error + Message" where
  "newSolicit hw identity xid =
     Inr \<lparr>MessageType = MessageTypeSolicit, TransactionID = xid,
          Options = [OptionClientID identity]\<rparr>"

definition newRequestFromAdvertise ::
  "Message option \<Rightarrow> Duid \<Rightarrow> TransactionID \<Rightarrow> error + Message" where
  "newRequestFromAdvertise adv identity xid =
     (case adv of
        None \<Rightarrow> Inl NoActiveLease
      | Some a \<Rightarrow>
          if MessageType a \<noteq> MessageTypeAdvertise
          then Inl (CodecError ''not an Advertise'')
          else Inr \<lparr>MessageType = MessageTypeRequest, TransactionID = xid,
                    Options = [OptionClientID identity]\<rparr>)"

definition decode :: "bytes \<Rightarrow> error + Message" where
  "decode bs =
     (case bs of
        t # a # b # c # rest \<Rightarrow>
          (case typeOfCode t of
             None \<Rightarrow> Inl (CodecError ''unknown message type'')
           | Some ty \<Rightarrow> Inr \<lparr>MessageType = ty, TransactionID = (a, b, c), Options = []\<rparr>)
      | _ \<Rightarrow> Inl (CodecError ''short datagram''))"

definition encode :: "Message \<Rightarrow> bytes" where
  "encode m = (case TransactionID m of (a, b, c) \<Rightarrow> [typeCode (MessageType m), a, b, c])"

definition specLibrary :: Library where
  "specLibrary =
     \<lparr>NewSolicit = newSolicit, NewRequestFromAdvertise = newRequestFromAdvertise,
      MessageFromBytes = decode, ToBytes = encode, IPString = (\<lambda>ip. [])\<rparr>"

text \<open>A fresh client on a connection: no Advertise retained, no error, the zero Config.\<close>

definition newClient :: "TransactionID list \<Rightarrow> (error + bytes) list \<Rightarrow> Client" where
  "newClient ids datagrams =
     \<lparr>hardwareAddr = [2, 0, 0, 0, 0, 1], timeNow = (\<lambda>k. 1000), duid = [0, 3, 0, 1],
      advertise = None, cfg = zeroConfig, err = None,
      Conn = \<lparr>inbound = datagrams, write_results = [], calls = []\<rparr>,
      transactionIDs = ids\<rparr>"

subsection \<open>Concrete runs\<close>

text \<open>
  A Request with TransactionID 0, 0, 1 and a client whose connection delivers, in this
  order: an Advertise with that TransactionID, two bytes that do not decode, a Reply with
  another TransactionID, a Reply with that TransactionID (six bytes), and one more.
\<close>

definition exampleRequest :: Message where
  "exampleRequest = \<lparr>MessageType = MessageTypeRequest, TransactionID = (0, 0, 1), Options = []\<rparr>"

definition noisyClient :: Client where
  "noisyClient =
     newClient [] [Inr [2, 0, 0, 1], Inr [1, 2], Inr [7, 0, 0, 9], Inr [7, 0, 0, 1, 5, 5],
                   Inr [7, 0, 0, 1]]"

text \<open>A Release with TransactionID 0, 0, 1: the table gives it no expected type.\<close>

definition exampleRelease :: Message where
  "exampleRelease = \<lparr>MessageType = MessageTypeRelease, TransactionID = (0, 0, 1), Options = []\<rparr>"

text \<open>
  A client whose connection delivers two bytes that do not decode, a Reply with another
  TransactionID, an Advertise with TransactionID 0, 0, 1, and one more datagram.
\<close>

definition releasingClient :: Client where
  "releasingClient =
     newClient [] [Inr [1, 2], Inr [7, 0, 0, 9], Inr [2, 0, 0, 1], Inr [7, 0, 0, 1]]"

text \<open>
  A Solicit with TransactionID 0, 0, 1 and a client whose connection delivers a Reply with
  that TransactionID, two bytes that do not decode, an Advertise with another
  TransactionID, an Advertise with that TransactionID, and one more datagram.
\<close>

definition exampleSolicit :: Message where
  "exampleSolicit = \<lparr>MessageType = MessageTypeSolicit, TransactionID = (0, 0, 1), Options = []\<rparr>"

definition advertisingClient :: Client where
  "advertisingClient =
     newClient [] [Inr [7, 0, 0, 1], Inr [1, 2], Inr [2, 0, 0, 9], Inr [2, 0, 0, 1],
                   Inr [7, 0, 0, 1]]"

text \<open>A client whose connection delivers only noise, and one whose third read fails.\<close>

definition starvedClient :: Client where
  "starvedClient = newClient [] [Inr [2, 0, 0, 1], Inr [1, 2], Inr [7, 0, 0, 9]]"

definition brokenClient :: Client where
  "brokenClient =
     newClient [] [Inr [2, 0, 0, 1], Inr [1, 2], Inl (TransportError ''connection refused''),
                   Inr [7, 0, 0, 1]]"

text \<open>
  A client with two queued TransactionIDs whose connection delivers an Advertise with the
  first, a Reply with the second and a Reply with TransactionID 9, 9, 3.
\<close>

definition leaseClient :: Client where
  "leaseClient =
     newClient [(1, 1, 1), (2, 2, 2)] [Inr [2, 1, 1, 1], Inr [7, 2, 2, 2], Inr [7, 9, 9, 3]]"

definition advertise111 :: Message where
  "advertise111 = \<lparr>MessageType = MessageTypeAdvertise, TransactionID = (1, 1, 1), Options = []\<rparr>"

text \<open>
  A client with one queued TransactionID that has retained the Advertise, and a client
  with two queued TransactionIDs that has retained none.
\<close>

definition queuedReleaseClient :: Client where
  "queuedReleaseClient =
     (newClient [(3, 3, 3)] [Inr [7, 3, 3, 3]])\<lparr>advertise := Some advertise111\<rparr>"

definition unboundQueuedClient :: Client where
  "unboundQueuedClient = newClient [(1, 1, 1), (2, 2, 2)] [Inr [7, 1, 1, 1]]"

text \<open>A Solicit of the caller's that already carries an identity association.\<close>

definition suppliedSolicit :: Message where
  "suppliedSolicit =
     \<lparr>MessageType = MessageTypeSolicit, TransactionID = (0, 0, 7),
      Options = [OptionClientID [0, 3, 0, 1],
                 OptionIAPD \<lparr>IaId = [0, 0, 0, 5], T1 = 0, T2 = 0, PDOptions = []\<rparr>]\<rparr>"

text \<open>A fresh client whose connection delivers an Advertise with TransactionID 0, 0, 7.\<close>

definition solicitingClient :: Client where
  "solicitingClient = newClient [] [Inr [2, 0, 0, 7]]"

text \<open>
  A Reply with two identity associations, of T1 one hour and thirty minutes, and a Reply
  whose associations have T1 zero and thirty minutes.
\<close>

definition twoIAPDReply :: Message where
  "twoIAPDReply =
     \<lparr>MessageType = MessageTypeReply, TransactionID = (0, 0, 1),
      Options =
        [OptionIAPD \<lparr>IaId = [0, 0, 0, 1], T1 = Hour, T2 = 2 * Hour,
           PDOptions = [PDOptIAPrefix \<lparr>PreferredLifetime = Hour, ValidLifetime = 2 * Hour,
                          Prefix = Some \<lparr>IP = [32, 1, 13, 184], Mask = [255, 255, 255, 255, 255, 255]\<rparr>\<rparr>]\<rparr>,
         OptionIAPD \<lparr>IaId = [0, 0, 0, 2], T1 = 30 * Minute, T2 = Hour, PDOptions = []\<rparr>]\<rparr>"

definition zeroDeadlineReply :: Message where
  "zeroDeadlineReply =
     \<lparr>MessageType = MessageTypeReply, TransactionID = (0, 0, 1),
      Options = [OptionIAPD \<lparr>IaId = [0, 0, 0, 1], T1 = 0, T2 = 0, PDOptions = []\<rparr>,
                 OptionIAPD \<lparr>IaId = [0, 0, 0, 2], T1 = 30 * Minute, T2 = 0, PDOptions = []\<rparr>]\<rparr>"

text \<open>
  Two clients that hold a Config from before: the connection of the first delivers
  nothing, the connection of the second delivers an Advertise and then fails.
\<close>

definition heldConfig :: Config where
  "heldConfig =
     \<lparr>RenewAfter = 5000,
      Prefixes = [\<lparr>IP = [32, 1, 13, 184], Mask = [255, 255, 255, 255, 255, 255]\<rparr>],
      DNS = [''2001:db8::53'']\<rparr>"

definition silentClient :: Client where
  "silentClient = (newClient [] [])\<lparr>cfg := heldConfig, err := Some (TransportError ''earlier'')\<rparr>"

definition halfClient :: Client where
  "halfClient =
     (newClient [] [Inr [2, 9, 9, 1], Inl (TransportError ''network down'')])\<lparr>cfg := heldConfig\<rparr>"

section \<open>The exchange: sendReceive\<close>

subsection \<open>The receive loop, one read at a time\<close>

text \<open>
  One turn of the loop, by what the connection holds: nothing (the deadline passes), a
  failing read, a datagram that matches, or one that does not.
\<close>

lemma receiveLoop_step:
  "receiveLoop lib p et conn =
     (case inbound conn of
        [] \<Rightarrow> (Inl Timeout, conn\<lparr>calls := calls conn @ [CallReadFrom]\<rparr>)
      | r # rs \<Rightarrow>
          (case r of
             Inl e \<Rightarrow> (Inl e, conn\<lparr>inbound := rs, calls := calls conn @ [CallReadFrom]\<rparr>)
           | Inr d \<Rightarrow>
               if matching lib p et d
               then (Inr (the (decoded lib d)),
                     conn\<lparr>inbound := rs, calls := calls conn @ [CallReadFrom]\<rparr>)
               else receiveLoop lib p et
                      (conn\<lparr>inbound := rs, calls := calls conn @ [CallReadFrom]\<rparr>)))"
  by (subst receiveLoop.simps)
     (auto simp: ReadFrom_def matching_def decoded_def split: list.splits sum.splits)

lemma receiveLoop_skip:
  "inbound conn = map Inr pre @ rest \<Longrightarrow> \<forall>x\<in>set pre. \<not> matching lib p et x \<Longrightarrow>
   receiveLoop lib p et conn =
     receiveLoop lib p et
       (conn\<lparr>inbound := rest, calls := calls conn @ replicate (length pre) CallReadFrom\<rparr>)"
proof (induction pre arbitrary: conn)
  case Nil
  then show ?case by (cases conn) simp
next
  case (Cons x pre)
  let ?conn1 = "conn\<lparr>inbound := map Inr pre @ rest, calls := calls conn @ [CallReadFrom]\<rparr>"
  have "receiveLoop lib p et conn = receiveLoop lib p et ?conn1"
    using Cons.prems by (subst receiveLoop_step) simp
  also have "\<dots> = receiveLoop lib p et (?conn1\<lparr>inbound := rest, calls := calls ?conn1 @ replicate (length pre) CallReadFrom\<rparr>)"
    using Cons.prems by (intro Cons.IH) simp_all
  finally show ?case by (simp add: replicate_app_Cons_same)
qed

lemma matching_decoded:
  "matching lib p et d \<Longrightarrow> \<exists>m. decoded lib d = Some m \<and> TransactionID m = TransactionID p
      \<and> (et = MessageTypeNone \<or> MessageType m = et)"
  by (auto simp: matching_def decoded_def split: sum.splits)

lemma receiveLoop_txid_aux:
  "inbound conn = xs \<Longrightarrow> receiveLoop lib p et conn = (Inr m, conn') \<Longrightarrow> TransactionID m = TransactionID p"
proof (induction xs arbitrary: conn)
  case Nil
  then show ?case by (subst (asm) receiveLoop_step) simp
next
  case (Cons x xs)
  show ?case
  proof (cases x)
    case (Inl e)
    with Cons.prems show ?thesis by (subst (asm) receiveLoop_step) simp
  next
    case (Inr d)
    show ?thesis
    proof (cases "matching lib p et d")
      case True
      with Cons.prems Inr matching_decoded [OF True] show ?thesis
        by (subst (asm) receiveLoop_step) auto
    next
      case False
      let ?conn1 = "conn\<lparr>inbound := xs, calls := calls conn @ [CallReadFrom]\<rparr>"
      from Cons.prems Inr False have "receiveLoop lib p et ?conn1 = (Inr m, conn')"
        by (subst (asm) receiveLoop_step) simp
      then show ?thesis by (intro Cons.IH [of ?conn1]) simp_all
    qed
  qed
qed

lemma receiveLoop_txid:
  "receiveLoop lib p et conn = (Inr m, conn') \<Longrightarrow> TransactionID m = TransactionID p"
  by (rule receiveLoop_txid_aux [OF refl])

lemma receiveLoop_type_aux:
  "inbound conn = xs \<Longrightarrow> receiveLoop lib p et conn = (Inr m, conn') \<Longrightarrow>
     et = MessageTypeNone \<or> MessageType m = et"
proof (induction xs arbitrary: conn)
  case Nil
  then show ?case by (subst (asm) receiveLoop_step) simp
next
  case (Cons x xs)
  show ?case
  proof (cases x)
    case (Inl e)
    with Cons.prems show ?thesis by (subst (asm) receiveLoop_step) simp
  next
    case (Inr d)
    show ?thesis
    proof (cases "matching lib p et d")
      case True
      with Cons.prems Inr matching_decoded [OF True] show ?thesis
        by (subst (asm) receiveLoop_step) auto
    next
      case False
      let ?conn1 = "conn\<lparr>inbound := xs, calls := calls conn @ [CallReadFrom]\<rparr>"
      from Cons.prems Inr False have "receiveLoop lib p et ?conn1 = (Inr m, conn')"
        by (subst (asm) receiveLoop_step) simp
      then show ?thesis by (intro Cons.IH [of ?conn1]) simp_all
    qed
  qed
qed

lemma sendReceive_type:
  "sendReceive lib c (Some packet) et = (Inr m, c') \<Longrightarrow>
     inferExpectedType packet et = MessageTypeNone \<or> MessageType m = inferExpectedType packet et"
  by (auto simp: sendReceive_def Let_def split: option.splits prod.splits
      dest: receiveLoop_type_aux [OF refl])

lemma receiveLoop_first_match:
  assumes "inbound conn = map Inr pre @ Inr d # post"
    and "\<forall>x\<in>set pre. \<not> matching lib p et x"
    and "matching lib p et d"
  shows "\<exists>m conn'. receiveLoop lib p et conn = (Inr m, conn') \<and> decoded lib d = Some m
           \<and> inbound conn' = post \<and> write_results conn' = write_results conn"
proof -
  let ?conn1 = "conn\<lparr>inbound := Inr d # post, calls := calls conn @ replicate (length pre) CallReadFrom\<rparr>"
  have "receiveLoop lib p et conn = receiveLoop lib p et ?conn1"
    using assms(1,2) by (rule receiveLoop_skip)
  moreover obtain m where "decoded lib d = Some m"
    using matching_decoded [OF assms(3)] by blast
  ultimately show ?thesis
    using assms(3) by (subst (asm) receiveLoop_step) simp
qed

lemma receiveLoop_no_match_timeout:
  assumes "inbound conn = map Inr pre"
    and "\<forall>x\<in>set pre. \<not> matching lib p et x"
  shows "\<exists>conn'. receiveLoop lib p et conn = (Inl Timeout, conn') \<and> inbound conn' = []"
proof -
  let ?conn1 = "conn\<lparr>inbound := [], calls := calls conn @ replicate (length pre) CallReadFrom\<rparr>"
  have "receiveLoop lib p et conn = receiveLoop lib p et ?conn1"
    using assms by (intro receiveLoop_skip) simp_all
  then show ?thesis
    by (subst (asm) receiveLoop_step) simp
qed

lemma receiveLoop_no_match_error:
  assumes "inbound conn = map Inr pre @ Inl e # post"
    and "\<forall>x\<in>set pre. \<not> matching lib p et x"
  shows "\<exists>conn'. receiveLoop lib p et conn = (Inl e, conn') \<and> inbound conn' = post"
proof -
  let ?conn1 = "conn\<lparr>inbound := Inl e # post, calls := calls conn @ replicate (length pre) CallReadFrom\<rparr>"
  have "receiveLoop lib p et conn = receiveLoop lib p et ?conn1"
    using assms by (rule receiveLoop_skip)
  then show ?thesis
    by (subst (asm) receiveLoop_step) simp
qed

lemma sendReceive_write_ok:
  "writeSucceeds (Conn c) \<Longrightarrow>
   sendReceive lib c (Some p) et =
     (let (r, conn4) = receiveLoop lib p (inferExpectedType p et)
         ((Conn c)\<lparr>write_results := tl (write_results (Conn c)),
                   calls := calls (Conn c) @ [CallSetWriteDeadline, CallWriteTo (ToBytes lib p), CallSetReadDeadline]\<rparr>)
      in (r, c\<lparr>Conn := conn4\<rparr>))"
  by (cases "Conn c") (auto simp: sendReceive_def writeSucceeds_def Let_def WriteTo_def SetWriteDeadline_def SetReadDeadline_def split: list.splits prod.splits)


lemma sendReceive_skips_to_match:
  assumes "writeSucceeds (Conn c)"
    and "inbound (Conn c) = map Inr pre @ Inr d # post"
    and "\<forall>x\<in>set pre. \<not> matching lib packet (inferExpectedType packet expectedType) x"
    and "matching lib packet (inferExpectedType packet expectedType) d"
  shows "\<exists>m c'. sendReceive lib c (Some packet) expectedType = (Inr m, c') \<and>
           decoded lib d = Some m \<and> inbound (Conn c') = post"
proof -
  let ?conn = "(Conn c)\<lparr>write_results := tl (write_results (Conn c)),
       calls := calls (Conn c) @
         [CallSetWriteDeadline, CallWriteTo (ToBytes lib packet), CallSetReadDeadline]\<rparr>"
  have "inbound ?conn = map Inr pre @ Inr d # post" using assms(2) by simp
  from receiveLoop_first_match [OF this assms(3,4)]
  show ?thesis
    by (auto simp: sendReceive_write_ok [OF assms(1)])
qed

subsection \<open>Concrete runs of sendReceive\<close>

lemma noisyClient_writeSucceeds: "writeSucceeds (Conn noisyClient)"
  by code_simp

lemma noisyClient_inbound:
  "inbound (Conn noisyClient) =
     map Inr [[2, 0, 0, 1], [1, 2], [7, 0, 0, 9]] @ Inr [7, 0, 0, 1, 5, 5] # [Inr [7, 0, 0, 1]]"
  by code_simp

lemma exampleRequest_expects: "inferExpectedType exampleRequest MessageTypeNone = MessageTypeReply"
  by code_simp

lemma exampleRequest_noise:
  "\<forall>x\<in>set [[2, 0, 0, 1], [1, 2], [7, 0, 0, 9]].
     \<not> matching specLibrary exampleRequest (inferExpectedType exampleRequest MessageTypeNone) x"
  by code_simp

lemma exampleRequest_match:
  "matching specLibrary exampleRequest (inferExpectedType exampleRequest MessageTypeNone)
     [7, 0, 0, 1, 5, 5]"
  by code_simp

lemma noisyClient_run:
  "fst (sendReceive specLibrary noisyClient (Some exampleRequest) MessageTypeNone) =
     Inr \<lparr>MessageType = MessageTypeReply, TransactionID = (0, 0, 1), Options = []\<rparr>"
  by code_simp

subsection \<open>The reply carries the TransactionID that was sent\<close>

text \<open>
  C1: whenever \<open>sendReceive\<close> returns a message rather than an error, a packet was sent
  and the returned message's TransactionID is the one of that packet.
\<close>

theorem sendReceive_TransactionID:
  "sendReceive lib c packet expectedType = (Inr m, c') \<Longrightarrow>
     \<exists>p. packet = Some p \<and> TransactionID m = TransactionID p"
  by (auto simp: sendReceive_def Let_def split: option.splits prod.splits dest: receiveLoop_txid)

theorem sendReceive_TransactionID_witness:
  "\<exists>m c'. sendReceive specLibrary noisyClient (Some exampleRequest) MessageTypeNone = (Inr m, c') \<and>
      (\<exists>p. Some exampleRequest = Some p \<and> TransactionID m = TransactionID p)"
proof -
  obtain m c' where run:
    "sendReceive specLibrary noisyClient (Some exampleRequest) MessageTypeNone = (Inr m, c')"
    using noisyClient_run by (metis prod.collapse)
  from sendReceive_TransactionID [OF run] run show ?thesis by blast
qed

subsection \<open>The first matching datagram is returned\<close>

text \<open>
  C2: when the write succeeds and the reads deliver datagrams of which none matches (it
  does not decode, or carries another TransactionID, or carries the right one and a type
  other than the expected one) and then a datagram that matches, \<open>sendReceive\<close> returns
  the message of that datagram, and the datagrams after it are still unread.
\<close>

theorem sendReceive_first_match:
  assumes "writeSucceeds (Conn c)"
    and "inbound (Conn c) = map Inr pre @ Inr d # post"
    and "\<forall>x\<in>set pre. \<not> matching lib packet (inferExpectedType packet expectedType) x"
    and "matching lib packet (inferExpectedType packet expectedType) d"
  shows "\<exists>m c'. sendReceive lib c (Some packet) expectedType = (Inr m, c') \<and>
           decoded lib d = Some m \<and> inbound (Conn c') = post"
  using assms by (rule sendReceive_skips_to_match)

theorem sendReceive_first_match_witness:
  "\<exists>m c'. sendReceive specLibrary noisyClient (Some exampleRequest) MessageTypeNone = (Inr m, c') \<and>
      decoded specLibrary [7, 0, 0, 1, 5, 5] = Some m \<and> inbound (Conn c') = [Inr [7, 0, 0, 1]]"
  by (rule sendReceive_first_match
        [OF noisyClient_writeSucceeds noisyClient_inbound exampleRequest_noise exampleRequest_match])

text \<open>
  What does not match, spelled out: the datagram does not decode, or its message carries
  another TransactionID, or an expected type is in effect and the message has another.
\<close>

lemma not_matching_iff:
  "(\<not> matching lib packet et d) =
     (case decoded lib d of
        None \<Rightarrow> True
      | Some adv \<Rightarrow>
          TransactionID adv \<noteq> TransactionID packet \<or>
          (et \<noteq> MessageTypeNone \<and> MessageType adv \<noteq> et))"
  by (auto simp: matching_def decoded_def split: sum.splits)

subsection \<open>The expected type\<close>

lemma inferExpectedType_table:
  "inferExpectedType packet MessageTypeNone = expectedTypeTable (MessageType packet)"
  by (cases "MessageType packet") (simp_all add: inferExpectedType_def expectedTypeTable_def)

lemma inferExpectedType_idem:
  "inferExpectedType packet (expectedTypeTable (MessageType packet)) =
     expectedTypeTable (MessageType packet)"
  by (cases "MessageType packet") (simp_all add: inferExpectedType_def expectedTypeTable_def)

lemma sendReceive_cong_expected:
  "inferExpectedType packet t = inferExpectedType packet u \<Longrightarrow>
     sendReceive lib c (Some packet) t = sendReceive lib c (Some packet) u"
  by (simp add: sendReceive_def)

lemma expectedTypeTable_None:
  "t \<notin> {MessageTypeSolicit, MessageTypeRequest, MessageTypeRelayForward, MessageTypeLeaseQuery}
     \<Longrightarrow> expectedTypeTable t = MessageTypeNone"
  by (cases t) (simp_all add: expectedTypeTable_def)

lemma matching_None_iff:
  "matching lib packet MessageTypeNone d =
     (\<exists>a. decoded lib d = Some a \<and> TransactionID a = TransactionID packet)"
  by (auto simp: matching_def decoded_def split: sum.splits)

lemma releasingClient_writeSucceeds: "writeSucceeds (Conn releasingClient)"
  by code_simp

lemma releasingClient_inbound:
  "inbound (Conn releasingClient) =
     map Inr [[1, 2], [7, 0, 0, 9]] @ Inr [2, 0, 0, 1] # [Inr [7, 0, 0, 1]]"
  by code_simp

lemma exampleRelease_type:
  "MessageType exampleRelease \<notin>
     {MessageTypeSolicit, MessageTypeRequest, MessageTypeRelayForward, MessageTypeLeaseQuery}"
  by (simp add: exampleRelease_def)

lemma exampleRelease_noise:
  "\<forall>x\<in>set [[1, 2], [7, 0, 0, 9]].
     \<forall>a. decoded specLibrary x = Some a \<longrightarrow> TransactionID a \<noteq> TransactionID exampleRelease"
  by (simp add: decoded_def specLibrary_def decode_def typeOfCode_def exampleRelease_def
        maxUDPReceivedPacketSize_def)

lemma exampleRelease_advertise:
  "decoded specLibrary [2, 0, 0, 1] =
     Some \<lparr>MessageType = MessageTypeAdvertise, TransactionID = (0, 0, 1), Options = []\<rparr>"
  by (simp add: decoded_def specLibrary_def decode_def typeOfCode_def maxUDPReceivedPacketSize_def)

lemma exampleSolicit_type: "MessageType exampleSolicit = MessageTypeSolicit"
  by (simp add: exampleSolicit_def)

lemma advertisingClient_writeSucceeds: "writeSucceeds (Conn advertisingClient)"
  by code_simp

lemma advertisingClient_inbound:
  "inbound (Conn advertisingClient) =
     map Inr [[7, 0, 0, 1], [1, 2], [2, 0, 0, 9]] @ Inr [2, 0, 0, 1] # [Inr [7, 0, 0, 1]]"
  by code_simp

lemma exampleSolicit_noise:
  "\<forall>x\<in>set [[7, 0, 0, 1], [1, 2], [2, 0, 0, 9]].
     \<forall>a. decoded specLibrary x = Some a \<longrightarrow>
       TransactionID a \<noteq> TransactionID exampleSolicit \<or>
       MessageType a \<noteq> expectedTypeTable (MessageType exampleSolicit)"
  by (simp add: decoded_def specLibrary_def decode_def typeOfCode_def exampleSolicit_def
        expectedTypeTable_def maxUDPReceivedPacketSize_def)

text \<open>
  C3: with no expected type given, \<open>sendReceive\<close> works with the expected type of the
  fixed table. For a Solicit it returns only an Advertise, for a Request only a Reply,
  for a RelayForward only a RelayReply, for a LeaseQuery only a LeaseQueryReply: it
  skips every datagram that does not decode, or carries another TransactionID, or
  carries the packet's TransactionID with another type than the table's, and returns the
  first message with the packet's TransactionID and the table's type. For a packet of
  any type outside the table the expected type stays none, and then the first datagram
  that decodes to a message with the packet's TransactionID is returned, whatever its
  type.
\<close>

theorem sendReceive_expected_type_inference:
  "inferExpectedType packet MessageTypeNone = expectedTypeTable (MessageType packet) \<and>
   sendReceive lib c (Some packet) MessageTypeNone =
     sendReceive lib c (Some packet) (expectedTypeTable (MessageType packet)) \<and>
   (MessageType packet = MessageTypeSolicit \<longrightarrow>
    sendReceive lib c (Some packet) MessageTypeNone = (Inr r, k) \<longrightarrow>
      MessageType r = MessageTypeAdvertise) \<and>
   (MessageType packet = MessageTypeRequest \<longrightarrow>
    sendReceive lib c (Some packet) MessageTypeNone = (Inr r, k) \<longrightarrow>
      MessageType r = MessageTypeReply) \<and>
   (MessageType packet = MessageTypeRelayForward \<longrightarrow>
    sendReceive lib c (Some packet) MessageTypeNone = (Inr r, k) \<longrightarrow>
      MessageType r = MessageTypeRelayReply) \<and>
   (MessageType packet = MessageTypeLeaseQuery \<longrightarrow>
    sendReceive lib c (Some packet) MessageTypeNone = (Inr r, k) \<longrightarrow>
      MessageType r = MessageTypeLeaseQueryReply) \<and>
   (MessageType packet \<in>
      {MessageTypeSolicit, MessageTypeRequest, MessageTypeRelayForward, MessageTypeLeaseQuery} \<longrightarrow>
    writeSucceeds (Conn c) \<longrightarrow>
    inbound (Conn c) = map Inr pre @ Inr d # post \<longrightarrow>
    (\<forall>x\<in>set pre. \<forall>a. decoded lib x = Some a \<longrightarrow>
       TransactionID a \<noteq> TransactionID packet \<or>
       MessageType a \<noteq> expectedTypeTable (MessageType packet)) \<longrightarrow>
    decoded lib d = Some m \<longrightarrow>
    TransactionID m = TransactionID packet \<longrightarrow>
    MessageType m = expectedTypeTable (MessageType packet) \<longrightarrow>
    (\<exists>c'. sendReceive lib c (Some packet) MessageTypeNone = (Inr m, c') \<and>
          inbound (Conn c') = post)) \<and>
   (MessageType packet \<notin>
      {MessageTypeSolicit, MessageTypeRequest, MessageTypeRelayForward, MessageTypeLeaseQuery} \<longrightarrow>
    inferExpectedType packet MessageTypeNone = MessageTypeNone \<and>
    (writeSucceeds (Conn c) \<longrightarrow>
     inbound (Conn c) = map Inr pre @ Inr d # post \<longrightarrow>
     (\<forall>x\<in>set pre. \<forall>a. decoded lib x = Some a \<longrightarrow> TransactionID a \<noteq> TransactionID packet) \<longrightarrow>
     decoded lib d = Some m \<longrightarrow>
     TransactionID m = TransactionID packet \<longrightarrow>
     (\<exists>c'. sendReceive lib c (Some packet) MessageTypeNone = (Inr m, c') \<and>
           inbound (Conn c') = post)))"
proof (intro conjI impI)
  show "inferExpectedType packet MessageTypeNone = expectedTypeTable (MessageType packet)"
    by (rule inferExpectedType_table)
  show "sendReceive lib c (Some packet) MessageTypeNone =
          sendReceive lib c (Some packet) (expectedTypeTable (MessageType packet))"
    by (rule sendReceive_cong_expected) (simp add: inferExpectedType_table inferExpectedType_idem)
next
  assume "MessageType packet = MessageTypeSolicit"
    and "sendReceive lib c (Some packet) MessageTypeNone = (Inr r, k)"
  with sendReceive_type [of lib c packet MessageTypeNone r k]
  show "MessageType r = MessageTypeAdvertise"
    by (simp add: inferExpectedType_def)
next
  assume "MessageType packet = MessageTypeRequest"
    and "sendReceive lib c (Some packet) MessageTypeNone = (Inr r, k)"
  with sendReceive_type [of lib c packet MessageTypeNone r k]
  show "MessageType r = MessageTypeReply"
    by (simp add: inferExpectedType_def)
next
  assume "MessageType packet = MessageTypeRelayForward"
    and "sendReceive lib c (Some packet) MessageTypeNone = (Inr r, k)"
  with sendReceive_type [of lib c packet MessageTypeNone r k]
  show "MessageType r = MessageTypeRelayReply"
    by (simp add: inferExpectedType_def)
next
  assume "MessageType packet = MessageTypeLeaseQuery"
    and "sendReceive lib c (Some packet) MessageTypeNone = (Inr r, k)"
  with sendReceive_type [of lib c packet MessageTypeNone r k]
  show "MessageType r = MessageTypeLeaseQueryReply"
    by (simp add: inferExpectedType_def)
next
  let ?et = "expectedTypeTable (MessageType packet)"
  assume inside: "MessageType packet \<in>
      {MessageTypeSolicit, MessageTypeRequest, MessageTypeRelayForward, MessageTypeLeaseQuery}"
    and w: "writeSucceeds (Conn c)"
    and inb: "inbound (Conn c) = map Inr pre @ Inr d # post"
    and pre: "\<forall>x\<in>set pre. \<forall>a. decoded lib x = Some a \<longrightarrow>
       TransactionID a \<noteq> TransactionID packet \<or> MessageType a \<noteq> ?et"
    and d: "decoded lib d = Some m" "TransactionID m = TransactionID packet"
      "MessageType m = ?et"
  from inside have some: "?et \<noteq> MessageTypeNone"
    by (auto simp: expectedTypeTable_def)
  have et: "inferExpectedType packet MessageTypeNone = ?et"
    by (rule inferExpectedType_table)
  from pre some have "\<forall>x\<in>set pre. \<not> matching lib packet ?et x"
    by (auto simp: not_matching_iff split: option.splits)
  moreover from d have "matching lib packet ?et d"
    by (auto simp: matching_def decoded_def split: sum.splits)
  ultimately have "\<exists>m' c'. sendReceive lib c (Some packet) MessageTypeNone = (Inr m', c') \<and>
           decoded lib d = Some m' \<and> inbound (Conn c') = post"
    using w inb by (intro sendReceive_skips_to_match) (simp_all add: et)
  with d show "\<exists>c'. sendReceive lib c (Some packet) MessageTypeNone = (Inr m, c') \<and>
           inbound (Conn c') = post"
    by auto
next
  assume outside: "MessageType packet \<notin>
      {MessageTypeSolicit, MessageTypeRequest, MessageTypeRelayForward, MessageTypeLeaseQuery}"
  then show none: "inferExpectedType packet MessageTypeNone = MessageTypeNone"
    by (simp add: inferExpectedType_table expectedTypeTable_None)
  assume w: "writeSucceeds (Conn c)"
    and inb: "inbound (Conn c) = map Inr pre @ Inr d # post"
    and pre: "\<forall>x\<in>set pre. \<forall>a. decoded lib x = Some a \<longrightarrow> TransactionID a \<noteq> TransactionID packet"
    and d: "decoded lib d = Some m" "TransactionID m = TransactionID packet"
  from pre have "\<forall>x\<in>set pre. \<not> matching lib packet (inferExpectedType packet MessageTypeNone) x"
    by (simp add: none matching_None_iff)
  moreover from d have "matching lib packet (inferExpectedType packet MessageTypeNone) d"
    by (simp add: none matching_None_iff)
  ultimately have "\<exists>m' c'. sendReceive lib c (Some packet) MessageTypeNone = (Inr m', c') \<and>
           decoded lib d = Some m' \<and> inbound (Conn c') = post"
    using w inb by (intro sendReceive_skips_to_match)
  with d show "\<exists>c'. sendReceive lib c (Some packet) MessageTypeNone = (Inr m, c') \<and>
           inbound (Conn c') = post"
    by auto
qed

theorem sendReceive_expected_type_inference_witness:
  "inferExpectedType exampleRelease MessageTypeNone = MessageTypeNone \<and>
   (\<exists>c'. sendReceive specLibrary releasingClient (Some exampleRelease) MessageTypeNone =
           (Inr \<lparr>MessageType = MessageTypeAdvertise, TransactionID = (0, 0, 1), Options = []\<rparr>, c') \<and>
         inbound (Conn c') = [Inr [7, 0, 0, 1]]) \<and>
   inferExpectedType exampleSolicit MessageTypeNone = MessageTypeAdvertise \<and>
   (\<exists>r c'. sendReceive specLibrary advertisingClient (Some exampleSolicit) MessageTypeNone =
           (Inr r, c') \<and>
         r = \<lparr>MessageType = MessageTypeAdvertise, TransactionID = (0, 0, 1), Options = []\<rparr> \<and>
         MessageType r = MessageTypeAdvertise \<and>
         inbound (Conn c') = [Inr [7, 0, 0, 1]])"
proof -
  let ?adv = "\<lparr>MessageType = MessageTypeAdvertise, TransactionID = (0, 0, 1), Options = []\<rparr>"
  have xid: "TransactionID ?adv = TransactionID exampleRelease"
    by (simp add: exampleRelease_def)
  note R = sendReceive_expected_type_inference
         [of exampleRelease specLibrary releasingClient _ _ "[[1, 2], [7, 0, 0, 9]]" "[2, 0, 0, 1]"
             "[Inr [7, 0, 0, 1]]" ?adv]
  note R8 = R [THEN conjunct2, THEN conjunct2, THEN conjunct2, THEN conjunct2, THEN conjunct2,
               THEN conjunct2, THEN conjunct2, THEN mp, OF exampleRelease_type]
  have release1: "inferExpectedType exampleRelease MessageTypeNone = MessageTypeNone"
    by (rule R8 [THEN conjunct1])
  have release2:
    "\<exists>c'. sendReceive specLibrary releasingClient (Some exampleRelease) MessageTypeNone =
           (Inr ?adv, c') \<and> inbound (Conn c') = [Inr [7, 0, 0, 1]]"
    by (rule R8 [THEN conjunct2, THEN mp, OF releasingClient_writeSucceeds,
                 THEN mp, OF releasingClient_inbound, THEN mp, OF exampleRelease_noise,
                 THEN mp, OF exampleRelease_advertise, THEN mp, OF xid])
  have table: "expectedTypeTable (MessageType exampleSolicit) = MessageTypeAdvertise"
    by (simp add: exampleSolicit_def expectedTypeTable_def)
  have inside: "MessageType exampleSolicit \<in>
      {MessageTypeSolicit, MessageTypeRequest, MessageTypeRelayForward, MessageTypeLeaseQuery}"
    by (simp add: exampleSolicit_def)
  have sx: "TransactionID ?adv = TransactionID exampleSolicit"
    and st: "MessageType ?adv = expectedTypeTable (MessageType exampleSolicit)"
    by (simp_all add: exampleSolicit_def expectedTypeTable_def)
  note S = sendReceive_expected_type_inference
         [of exampleSolicit specLibrary advertisingClient _ _
             "[[7, 0, 0, 1], [1, 2], [2, 0, 0, 9]]" "[2, 0, 0, 1]" "[Inr [7, 0, 0, 1]]" ?adv]
  have infer: "inferExpectedType exampleSolicit MessageTypeNone = MessageTypeAdvertise"
    using S [THEN conjunct1] table by simp
  have solicit:
    "\<exists>c'. sendReceive specLibrary advertisingClient (Some exampleSolicit) MessageTypeNone =
           (Inr ?adv, c') \<and> inbound (Conn c') = [Inr [7, 0, 0, 1]]"
    by (rule S [THEN conjunct2, THEN conjunct2, THEN conjunct2, THEN conjunct2, THEN conjunct2,
                THEN conjunct2, THEN conjunct1, THEN mp, OF inside,
                THEN mp, OF advertisingClient_writeSucceeds, THEN mp, OF advertisingClient_inbound,
                THEN mp, OF exampleSolicit_noise, THEN mp, OF exampleRelease_advertise,
                THEN mp, OF sx, THEN mp, OF st])
  from solicit obtain c' where
    "sendReceive specLibrary advertisingClient (Some exampleSolicit) MessageTypeNone = (Inr ?adv, c')"
    "inbound (Conn c') = [Inr [7, 0, 0, 1]]"
    by blast
  then have solicit':
    "\<exists>r c'. sendReceive specLibrary advertisingClient (Some exampleSolicit) MessageTypeNone =
           (Inr r, c') \<and> r = ?adv \<and> MessageType r = MessageTypeAdvertise \<and>
         inbound (Conn c') = [Inr [7, 0, 0, 1]]"
    by simp
  from release1 release2 infer solicit' show ?thesis
    by (intro conjI)
qed

subsection \<open>No match: the read error ends the exchange\<close>

lemma starvedClient_writeSucceeds: "writeSucceeds (Conn starvedClient)"
  by code_simp

lemma starvedClient_inbound:
  "inbound (Conn starvedClient) = map Inr [[2, 0, 0, 1], [1, 2], [7, 0, 0, 9]]"
  by code_simp

lemma brokenClient_writeSucceeds: "writeSucceeds (Conn brokenClient)"
  by code_simp

lemma brokenClient_inbound:
  "inbound (Conn brokenClient) =
     map Inr [[2, 0, 0, 1], [1, 2]] @ Inl (TransportError ''connection refused'') # [Inr [7, 0, 0, 1]]"
  by code_simp

lemma exampleRequest_noise2:
  "\<forall>x\<in>set [[2, 0, 0, 1], [1, 2]].
     \<not> matching specLibrary exampleRequest (inferExpectedType exampleRequest MessageTypeNone) x"
  using exampleRequest_noise by simp

text \<open>
  C4: when the write succeeds and none of the datagrams read matches, \<open>sendReceive\<close>
  fails with the error of the read that fails: with \<open>Timeout\<close> when the datagrams run
  out before the deadline, and with the error \<open>e\<close> of a failing read otherwise, at
  once (what the connection holds after that read stays unread). Datagrams that do not
  decode are among those skipped: they do not end the exchange.
\<close>

theorem sendReceive_no_match_fails:
  assumes "writeSucceeds (Conn c)"
    and "\<forall>x\<in>set pre. \<not> matching lib packet (inferExpectedType packet expectedType) x"
  shows "(inbound (Conn c) = map Inr pre \<longrightarrow>
            fst (sendReceive lib c (Some packet) expectedType) = Inl Timeout) \<and>
         (inbound (Conn c) = map Inr pre @ Inl e # post \<longrightarrow>
            fst (sendReceive lib c (Some packet) expectedType) = Inl e \<and>
            inbound (Conn (snd (sendReceive lib c (Some packet) expectedType))) = post)"
proof (intro conjI impI)
  let ?conn = "(Conn c)\<lparr>write_results := tl (write_results (Conn c)),
       calls := calls (Conn c) @
         [CallSetWriteDeadline, CallWriteTo (ToBytes lib packet), CallSetReadDeadline]\<rparr>"
  {
    assume "inbound (Conn c) = map Inr pre"
    then have "inbound ?conn = map Inr pre" by simp
    from receiveLoop_no_match_timeout [OF this assms(2)]
    show "fst (sendReceive lib c (Some packet) expectedType) = Inl Timeout"
      by (auto simp: sendReceive_write_ok [OF assms(1)])
  }
  {
    assume "inbound (Conn c) = map Inr pre @ Inl e # post"
    then have "inbound ?conn = map Inr pre @ Inl e # post" by simp
    from receiveLoop_no_match_error [OF this assms(2)]
    show "fst (sendReceive lib c (Some packet) expectedType) = Inl e"
      and "inbound (Conn (snd (sendReceive lib c (Some packet) expectedType))) = post"
      by (auto simp: sendReceive_write_ok [OF assms(1)])
  }
qed

theorem sendReceive_no_match_fails_witness:
  "fst (sendReceive specLibrary starvedClient (Some exampleRequest) MessageTypeNone) = Inl Timeout \<and>
   fst (sendReceive specLibrary brokenClient (Some exampleRequest) MessageTypeNone) =
     Inl (TransportError ''connection refused'') \<and>
   inbound (Conn (snd (sendReceive specLibrary brokenClient (Some exampleRequest) MessageTypeNone))) =
     [Inr [7, 0, 0, 1]]"
  using sendReceive_no_match_fails [OF starvedClient_writeSucceeds exampleRequest_noise]
        sendReceive_no_match_fails [OF brokenClient_writeSucceeds exampleRequest_noise2]
        starvedClient_inbound brokenClient_inbound
  by blast

section \<open>The exchanges of the client\<close>

subsection \<open>What an exchange leaves unchanged\<close>

lemma receiveLoop_frame_aux:
  "inbound conn = xs \<Longrightarrow> receiveLoop lib p et conn = (r, conn') \<Longrightarrow>
     write_results conn' = write_results conn \<and> (\<exists>rest. calls conn' = calls conn @ rest)"
proof (induction xs arbitrary: conn)
  case Nil
  then show ?case by (subst (asm) receiveLoop_step) auto
next
  case (Cons x xs)
  show ?case
  proof (cases x)
    case (Inl e)
    with Cons.prems show ?thesis by (subst (asm) receiveLoop_step) auto
  next
    case (Inr d)
    show ?thesis
    proof (cases "matching lib p et d")
      case True
      with Cons.prems Inr show ?thesis by (subst (asm) receiveLoop_step) auto
    next
      case False
      let ?conn1 = "conn\<lparr>inbound := xs, calls := calls conn @ [CallReadFrom]\<rparr>"
      from Cons.prems Inr False have "receiveLoop lib p et ?conn1 = (r, conn')"
        by (subst (asm) receiveLoop_step) simp
      from Cons.IH [OF _ this] show ?thesis by auto
    qed
  qed
qed

lemma sendReceive_frame:
  "sendReceive lib c packet et = (r, c') \<Longrightarrow> c' = c\<lparr>Conn := Conn c'\<rparr>"
  by (cases c) (auto simp: sendReceive_def Let_def split: option.splits prod.splits)

lemma sendReceive_calls:
  "sendReceive lib c (Some p) et = (r, c') \<Longrightarrow>
     \<exists>rest. calls (Conn c') = calls (Conn c) @ CallSetWriteDeadline # CallWriteTo (ToBytes lib p) # rest"
  by (auto simp: sendReceive_def Let_def WriteTo_def SetWriteDeadline_def SetReadDeadline_def
      split: option.splits prod.splits list.splits dest!: receiveLoop_frame_aux [OF refl])

lemma sendReceive_reply:
  "sendReceive lib c packet et = (r, c') \<Longrightarrow> errOf r = None \<Longrightarrow> \<exists>m. replyOf r = Some m"
  by (cases r) (simp_all add: errOf_def replyOf_def)

subsection \<open>Unfolding solicit, request and Release\<close>

lemma solicit_unfold:
  "solicit lib xid c solicit0 =
     (case (case solicit0 of None \<Rightarrow> NewSolicit lib (hardwareAddr c) (duid c) xid | Some s \<Rightarrow> Inr s) of
        Inl e \<Rightarrow> ((None, None, Some e), c)
      | Inr s0 \<Rightarrow>
          (let s = AddOption (stamp c s0) solicitIAPD;
               (r, c2) = sendReceive lib (popped c) (Some s) MessageTypeNone
           in ((Some s, replyOf r, errOf r), c2)))"
  by (auto simp: solicit_def stamp_def popped_def solicitIAPD_def Let_def split: sum.splits list.splits option.splits)

lemma request_unfold:
  "request lib xid c advertise0 =
     (case NewRequestFromAdvertise lib advertise0 (duid c) xid of
        Inl e \<Rightarrow> Some ((None, None, Some e), c)
      | Inr req \<Rightarrow>
          (case advertise0 of
             None \<Rightarrow> None
           | Some adv \<Rightarrow>
               (let req2 = stamp c (case OneIAPD (Options adv) of None \<Rightarrow> req
                                    | Some iapd \<Rightarrow> AddOption req (OptionIAPD iapd));
                    (r, c2) = sendReceive lib (popped c) (Some req2) MessageTypeNone
                in Some ((Some req2, replyOf r, errOf r), c2))))"
  by (auto simp: request_def stamp_def popped_def Let_def split: sum.splits list.splits option.splits)

lemma Release_unfold:
  "Release lib xid c =
     (case NewRequestFromAdvertise lib (advertise c) (duid c) xid of
        Inl e \<Rightarrow> ((None, None, Some e), c)
      | Inr rel \<Rightarrow>
          (let rel2 = stamp c (rel\<lparr>MessageType := MessageTypeRelease\<rparr>);
               (r, c2) = sendReceive lib (popped c) (Some rel2) MessageTypeNone
           in ((Some rel2, replyOf r, errOf r), c2)))"
  by (auto simp: Release_def stamp_def popped_def Let_def split: sum.splits list.splits option.splits)


lemma popped_ids: "transactionIDs (popped c) = tl (transactionIDs c)"
  by (simp add: popped_def split: list.splits)

lemma stamp_xid:
  "TransactionID (stamp c m) = (case transactionIDs c of [] \<Rightarrow> TransactionID m | tid # tids \<Rightarrow> tid)"
  by (simp add: stamp_def split: list.splits)

lemma stamp_Options: "Options (stamp c m) = Options m"
  by (simp add: stamp_def split: list.splits)

lemma stamp_MessageType: "MessageType (stamp c m) = MessageType m"
  by (simp add: stamp_def split: list.splits)

lemma sendReceive_ids:
  "sendReceive lib c packet et = (r, c') \<Longrightarrow> transactionIDs c' = transactionIDs c"
  by (drule sendReceive_frame) (erule ssubst, simp)

lemma solicit_sent:
  assumes "solicit lib xid c solicit0 = ((Some s, reply, e), c')"
  shows "\<exists>s0. (case solicit0 of None \<Rightarrow> NewSolicit lib (hardwareAddr c) (duid c) xid | Some m \<Rightarrow> Inr m) = Inr s0 \<and>
           s = AddOption (stamp c s0) solicitIAPD \<and>
           transactionIDs c' = tl (transactionIDs c) \<and>
           (\<exists>r. sendReceive lib (popped c) (Some s) MessageTypeNone = (r, c') \<and>
                reply = replyOf r \<and> e = errOf r)"
  using assms
  by (auto simp: solicit_unfold Let_def popped_ids split: sum.splits prod.splits dest: sendReceive_ids)

lemma request_sent:
  assumes "request lib xid c advertise0 = Some ((Some q, reply, e), c')"
  shows "\<exists>q0 adv. NewRequestFromAdvertise lib advertise0 (duid c) xid = Inr q0 \<and> advertise0 = Some adv \<and>
           q = stamp c (case OneIAPD (Options adv) of None \<Rightarrow> q0
                        | Some iapd \<Rightarrow> AddOption q0 (OptionIAPD iapd)) \<and>
           transactionIDs c' = tl (transactionIDs c) \<and>
           (\<exists>r. sendReceive lib (popped c) (Some q) MessageTypeNone = (r, c') \<and>
                reply = replyOf r \<and> e = errOf r)"
proof -
  from assms obtain q0 where q0: "NewRequestFromAdvertise lib advertise0 (duid c) xid = Inr q0"
    by (cases "NewRequestFromAdvertise lib advertise0 (duid c) xid") (auto simp: request_unfold)
  with assms obtain adv where adv: "advertise0 = Some adv"
    by (cases advertise0) (auto simp: request_unfold)
  let ?q = "stamp c (case OneIAPD (Options adv) of None \<Rightarrow> q0
                        | Some iapd \<Rightarrow> AddOption q0 (OptionIAPD iapd))"
  obtain r c2 where r: "sendReceive lib (popped c) (Some ?q) MessageTypeNone = (r, c2)"
    by (cases "sendReceive lib (popped c) (Some ?q) MessageTypeNone") blast
  with assms q0 adv have "q = ?q" "reply = replyOf r" "e = errOf r" "c' = c2"
    by (simp_all add: request_unfold Let_def)
  with q0 adv r sendReceive_ids [OF r] show ?thesis
    by (auto simp: popped_ids)
qed

lemma Release_sent:
  assumes "Release lib xid c = ((Some rel, reply, e), c')"
  shows "\<exists>rel0. NewRequestFromAdvertise lib (advertise c) (duid c) xid = Inr rel0 \<and>
           rel = stamp c (rel0\<lparr>MessageType := MessageTypeRelease\<rparr>) \<and>
           transactionIDs c' = tl (transactionIDs c) \<and>
           (\<exists>r. sendReceive lib (popped c) (Some rel) MessageTypeNone = (r, c') \<and>
                reply = replyOf r \<and> e = errOf r)"
  using assms
  by (auto simp: Release_unfold Let_def popped_ids split: sum.splits prod.splits dest: sendReceive_ids)

lemma request_stamp_xid:
  "TransactionID (case x of None \<Rightarrow> q0 | Some iapd \<Rightarrow> AddOption q0 (OptionIAPD iapd)) = TransactionID q0"
  by (simp add: AddOption_def split: option.splits)

lemma popped_Conn: "Conn (popped c) = Conn c"
  by (simp add: popped_def split: list.splits)

lemma IAPD_append: "IAPD (xs @ ys) = IAPD xs @ IAPD ys"
  by (induction xs rule: IAPD.induct) simp_all


subsection \<open>The queue of TransactionIDs\<close>

lemma sendReceive_keeps:
  "sendReceive lib c packet et = (r, c') \<Longrightarrow>
     cfg c' = cfg c \<and> err c' = err c \<and> advertise c' = advertise c \<and> timeNow c' = timeNow c"
  by (drule sendReceive_frame) (erule ssubst, simp)

lemma popped_keeps:
  "cfg (popped c) = cfg c \<and> err (popped c) = err c \<and> advertise (popped c) = advertise c \<and>
   timeNow (popped c) = timeNow c"
  by (simp add: popped_def split: list.splits)

lemma solicit_keeps:
  "solicit lib xid c solicit0 = (x, c') \<Longrightarrow>
     cfg c' = cfg c \<and> err c' = err c \<and> advertise c' = advertise c \<and> timeNow c' = timeNow c"
  by (auto simp: solicit_unfold Let_def popped_keeps split: sum.splits prod.splits
      dest!: sendReceive_keeps)

lemma request_keeps:
  "request lib xid c advertise0 = Some (x, c') \<Longrightarrow>
     cfg c' = cfg c \<and> err c' = err c \<and> advertise c' = advertise c \<and> timeNow c' = timeNow c"
  by (auto simp: request_unfold Let_def popped_keeps split: sum.splits prod.splits option.splits
      dest!: sendReceive_keeps)

lemma leaseClient_ids: "transactionIDs leaseClient = [(1, 1, 1), (2, 2, 2)]"
  by (simp add: leaseClient_def newClient_def)

lemma solicit_sends:
  assumes "(case solicit0 of
              None \<Rightarrow> NewSolicit lib (hardwareAddr c) (duid c) xid
            | Some m \<Rightarrow> Inr m) = Inr s0"
  shows "\<exists>s reply e c' rest.
           solicit lib xid c solicit0 = ((Some s, reply, e), c') \<and>
           s = AddOption (stamp c s0) solicitIAPD \<and>
           transactionIDs c' = tl (transactionIDs c) \<and>
           calls (Conn c') =
             calls (Conn c) @ CallSetWriteDeadline # CallWriteTo (ToBytes lib s) # rest"
proof -
  let ?s = "AddOption (stamp c s0) solicitIAPD"
  obtain r c2 where sr: "sendReceive lib (popped c) (Some ?s) MessageTypeNone = (r, c2)"
    by (cases "sendReceive lib (popped c) (Some ?s) MessageTypeNone") blast
  with assms have "solicit lib xid c solicit0 = ((Some ?s, replyOf r, errOf r), c2)"
    by (simp add: solicit_unfold)
  with sendReceive_ids [OF sr] sendReceive_calls [OF sr] show ?thesis
    by (auto simp: popped_ids popped_Conn)
qed

lemma request_sends:
  assumes "NewRequestFromAdvertise lib (Some adv) (duid c) xid = Inr q0"
  shows "\<exists>q reply e c' rest.
           request lib xid c (Some adv) = Some ((Some q, reply, e), c') \<and>
           q = stamp c (case OneIAPD (Options adv) of
                          None \<Rightarrow> q0
                        | Some iapd \<Rightarrow> AddOption q0 (OptionIAPD iapd)) \<and>
           transactionIDs c' = tl (transactionIDs c) \<and>
           calls (Conn c') =
             calls (Conn c) @ CallSetWriteDeadline # CallWriteTo (ToBytes lib q) # rest"
proof -
  let ?q = "stamp c (case OneIAPD (Options adv) of
                       None \<Rightarrow> q0
                     | Some iapd \<Rightarrow> AddOption q0 (OptionIAPD iapd))"
  obtain r c2 where sr: "sendReceive lib (popped c) (Some ?q) MessageTypeNone = (r, c2)"
    by (cases "sendReceive lib (popped c) (Some ?q) MessageTypeNone") blast
  with assms have "request lib xid c (Some adv) = Some ((Some ?q, replyOf r, errOf r), c2)"
    by (simp add: request_unfold)
  with sendReceive_ids [OF sr] sendReceive_calls [OF sr] show ?thesis
    by (auto simp: popped_ids popped_Conn)
qed

lemma Release_sends:
  assumes "NewRequestFromAdvertise lib (advertise c) (duid c) xid = Inr rel0"
  shows "\<exists>rel reply e c' rest.
           Release lib xid c = ((Some rel, reply, e), c') \<and>
           rel = stamp c (rel0\<lparr>MessageType := MessageTypeRelease\<rparr>) \<and>
           transactionIDs c' = tl (transactionIDs c) \<and>
           calls (Conn c') =
             calls (Conn c) @ CallSetWriteDeadline # CallWriteTo (ToBytes lib rel) # rest"
proof -
  let ?rel = "stamp c (rel0\<lparr>MessageType := MessageTypeRelease\<rparr>)"
  obtain r c2 where sr: "sendReceive lib (popped c) (Some ?rel) MessageTypeNone = (r, c2)"
    by (cases "sendReceive lib (popped c) (Some ?rel) MessageTypeNone") blast
  with assms have "Release lib xid c = ((Some ?rel, replyOf r, errOf r), c2)"
    by (simp add: Release_unfold)
  with sendReceive_ids [OF sr] sendReceive_calls [OF sr] show ?thesis
    by (auto simp: popped_ids popped_Conn)
qed

lemma solicit_pops:
  assumes "(case solicit0 of
              None \<Rightarrow> NewSolicit lib (hardwareAddr c) (duid c) xid
            | Some m \<Rightarrow> Inr m) = Inr s0"
  shows "\<exists>s reply e c' rest.
           solicit lib xid c solicit0 = ((Some s, reply, e), c') \<and>
           calls (Conn c') =
             calls (Conn c) @ CallSetWriteDeadline # CallWriteTo (ToBytes lib s) # rest \<and>
           (\<forall>tid tids. transactionIDs c = tid # tids \<longrightarrow>
              TransactionID s = tid \<and> transactionIDs c' = tids) \<and>
           (transactionIDs c = [] \<longrightarrow>
              TransactionID s = TransactionID s0 \<and> transactionIDs c' = [])"
proof -
  from solicit_sends [OF assms] obtain s reply e c' rest where
    "solicit lib xid c solicit0 = ((Some s, reply, e), c')"
    "s = AddOption (stamp c s0) solicitIAPD"
    "transactionIDs c' = tl (transactionIDs c)"
    "calls (Conn c') = calls (Conn c) @ CallSetWriteDeadline # CallWriteTo (ToBytes lib s) # rest"
    by blast
  moreover from this have "\<forall>tid tids. transactionIDs c = tid # tids \<longrightarrow>
              TransactionID s = tid \<and> transactionIDs c' = tids"
    and "transactionIDs c = [] \<longrightarrow> TransactionID s = TransactionID s0 \<and> transactionIDs c' = []"
    by (simp_all add: AddOption_def stamp_xid)
  ultimately show ?thesis by blast
qed

lemma request_pops:
  assumes "NewRequestFromAdvertise lib (Some adv) (duid c) xid = Inr q0"
  shows "\<exists>q reply e c' rest.
           request lib xid c (Some adv) = Some ((Some q, reply, e), c') \<and>
           calls (Conn c') =
             calls (Conn c) @ CallSetWriteDeadline # CallWriteTo (ToBytes lib q) # rest \<and>
           (\<forall>tid tids. transactionIDs c = tid # tids \<longrightarrow>
              TransactionID q = tid \<and> transactionIDs c' = tids) \<and>
           (transactionIDs c = [] \<longrightarrow>
              TransactionID q = TransactionID q0 \<and> transactionIDs c' = [])"
proof -
  from request_sends [OF assms] obtain q reply e c' rest where
    "request lib xid c (Some adv) = Some ((Some q, reply, e), c')"
    "q = stamp c (case OneIAPD (Options adv) of
                          None \<Rightarrow> q0
                        | Some iapd \<Rightarrow> AddOption q0 (OptionIAPD iapd))"
    "transactionIDs c' = tl (transactionIDs c)"
    "calls (Conn c') = calls (Conn c) @ CallSetWriteDeadline # CallWriteTo (ToBytes lib q) # rest"
    by blast
  moreover from this have "\<forall>tid tids. transactionIDs c = tid # tids \<longrightarrow>
              TransactionID q = tid \<and> transactionIDs c' = tids"
    and "transactionIDs c = [] \<longrightarrow> TransactionID q = TransactionID q0 \<and> transactionIDs c' = []"
    by (simp_all add: stamp_xid request_stamp_xid)
  ultimately show ?thesis by blast
qed

lemma Release_pops:
  assumes "NewRequestFromAdvertise lib (advertise c) (duid c) xid = Inr rel0"
  shows "\<exists>rel reply e c' rest.
           Release lib xid c = ((Some rel, reply, e), c') \<and>
           calls (Conn c') =
             calls (Conn c) @ CallSetWriteDeadline # CallWriteTo (ToBytes lib rel) # rest \<and>
           (\<forall>tid tids. transactionIDs c = tid # tids \<longrightarrow>
              TransactionID rel = tid \<and> transactionIDs c' = tids) \<and>
           (transactionIDs c = [] \<longrightarrow>
              TransactionID rel = TransactionID rel0 \<and> transactionIDs c' = [])"
proof -
  from Release_sends [OF assms] obtain rel reply e c' rest where
    "Release lib xid c = ((Some rel, reply, e), c')"
    "rel = stamp c (rel0\<lparr>MessageType := MessageTypeRelease\<rparr>)"
    "transactionIDs c' = tl (transactionIDs c)"
    "calls (Conn c') = calls (Conn c) @ CallSetWriteDeadline # CallWriteTo (ToBytes lib rel) # rest"
    by blast
  moreover from this have "\<forall>tid tids. transactionIDs c = tid # tids \<longrightarrow>
              TransactionID rel = tid \<and> transactionIDs c' = tids"
    and "transactionIDs c = [] \<longrightarrow> TransactionID rel = TransactionID rel0 \<and> transactionIDs c' = []"
    by (simp_all add: stamp_xid)
  ultimately show ?thesis by blast
qed


lemma solicit_constructor_fails:
  "(case solicit0 of
      None \<Rightarrow> NewSolicit lib (hardwareAddr c) (duid c) xid
    | Some m \<Rightarrow> Inr m) = Inl e0 \<Longrightarrow>
   solicit lib xid c solicit0 = ((None, None, Some e0), c)"
  by (simp add: solicit_unfold)

lemma request_constructor_fails:
  "NewRequestFromAdvertise lib advertise0 (duid c) xid = Inl e0 \<Longrightarrow>
   request lib xid c advertise0 = Some ((None, None, Some e0), c)"
  by (simp add: request_unfold)

lemma Release_constructor_fails:
  "NewRequestFromAdvertise lib (advertise c) (duid c) xid = Inl e0 \<Longrightarrow>
   Release lib xid c = ((None, None, Some e0), c)"
  by (simp add: Release_unfold)

lemma specLibrary_request:
  "NewRequestFromAdvertise specLibrary (Some advertise111) identity x =
     Inr \<lparr>MessageType = MessageTypeRequest, TransactionID = x,
          Options = [OptionClientID identity]\<rparr>"
  by (simp add: specLibrary_def newRequestFromAdvertise_def advertise111_def)

lemma queuedReleaseClient_fields:
  "advertise queuedReleaseClient = Some advertise111"
  "transactionIDs queuedReleaseClient = [(3, 3, 3)]"
  "calls (Conn queuedReleaseClient) = []"
  by (simp_all add: queuedReleaseClient_def newClient_def)

text \<open>
  C5, as the code has it: a call of \<open>solicit\<close>, \<open>request\<close> or \<open>Release\<close> whose message
  gets built (its constructor returns no error, or the caller supplies the Solicit)
  sends a message: it takes the first TransactionID off a non-empty queue, the message
  written to the connection carries it, and the queue that remains is the rest, so that
  TransactionID is not used again. With an empty queue the message goes out with the
  TransactionID its constructor gave it (for a Solicit of the caller's, the one it came
  with). A call whose constructor fails returns that error and leaves the client as it
  was: nothing is taken off the queue and nothing is written. So with a queue of two, the
  Solicit carries the first, the Request that follows carries the second, and a Release
  after them carries the TransactionID that its constructor generated.
\<close>

theorem transactionIDs_consumed_in_order:
  "((case given of
       None \<Rightarrow> NewSolicit lib (hardwareAddr c) (duid c) xid
     | Some m \<Rightarrow> Inr m) = Inr s0 \<longrightarrow>
      (\<exists>s reply e c' rest.
         solicit lib xid c given = ((Some s, reply, e), c') \<and>
         calls (Conn c') =
           calls (Conn c) @ CallSetWriteDeadline # CallWriteTo (ToBytes lib s) # rest \<and>
         (\<forall>tid tids. transactionIDs c = tid # tids \<longrightarrow>
            TransactionID s = tid \<and> transactionIDs c' = tids) \<and>
         (transactionIDs c = [] \<longrightarrow>
            TransactionID s = TransactionID s0 \<and> transactionIDs c' = []))) \<and>
   (NewRequestFromAdvertise lib (Some adv) (duid c) xid = Inr q0 \<longrightarrow>
      (\<exists>q reply e c' rest.
         request lib xid c (Some adv) = Some ((Some q, reply, e), c') \<and>
         calls (Conn c') =
           calls (Conn c) @ CallSetWriteDeadline # CallWriteTo (ToBytes lib q) # rest \<and>
         (\<forall>tid tids. transactionIDs c = tid # tids \<longrightarrow>
            TransactionID q = tid \<and> transactionIDs c' = tids) \<and>
         (transactionIDs c = [] \<longrightarrow>
            TransactionID q = TransactionID q0 \<and> transactionIDs c' = []))) \<and>
   (NewRequestFromAdvertise lib (advertise c) (duid c) xid = Inr rel0 \<longrightarrow>
      (\<exists>rel reply e c' rest.
         Release lib xid c = ((Some rel, reply, e), c') \<and>
         calls (Conn c') =
           calls (Conn c) @ CallSetWriteDeadline # CallWriteTo (ToBytes lib rel) # rest \<and>
         (\<forall>tid tids. transactionIDs c = tid # tids \<longrightarrow>
            TransactionID rel = tid \<and> transactionIDs c' = tids) \<and>
         (transactionIDs c = [] \<longrightarrow>
            TransactionID rel = TransactionID rel0 \<and> transactionIDs c' = []))) \<and>
   ((case given of
       None \<Rightarrow> NewSolicit lib (hardwareAddr c) (duid c) xid
     | Some m \<Rightarrow> Inr m) = Inl e0 \<longrightarrow>
      solicit lib xid c given = ((None, None, Some e0), c)) \<and>
   (NewRequestFromAdvertise lib advertise0 (duid c) xid = Inl e0 \<longrightarrow>
      request lib xid c advertise0 = Some ((None, None, Some e0), c)) \<and>
   (NewRequestFromAdvertise lib (advertise c) (duid c) xid = Inl e0 \<longrightarrow>
      Release lib xid c = ((None, None, Some e0), c)) \<and>
   (transactionIDs k = [a, b] \<longrightarrow>
    (case given of
       None \<Rightarrow> NewSolicit lib (hardwareAddr k) (duid k) xidS
     | Some m \<Rightarrow> Inr m) = Inr builtS \<longrightarrow>
      (\<exists>sS replyS eS kS.
         solicit lib xidS k given = ((Some sS, replyS, eS), kS) \<and>
         TransactionID sS = a \<and> transactionIDs kS = [b] \<and>
         (\<forall>kS' advS builtQ.
            transactionIDs kS' = transactionIDs kS \<longrightarrow>
            NewRequestFromAdvertise lib (Some advS) (duid kS') xidQ = Inr builtQ \<longrightarrow>
              (\<exists>sQ replyQ eQ kQ.
                 request lib xidQ kS' (Some advS) = Some ((Some sQ, replyQ, eQ), kQ) \<and>
                 TransactionID sQ = b \<and> transactionIDs kQ = [] \<and>
                 (\<forall>kQ' builtR.
                    transactionIDs kQ' = transactionIDs kQ \<longrightarrow>
                    NewRequestFromAdvertise lib (advertise kQ') (duid kQ') xidR = Inr builtR \<longrightarrow>
                      (\<exists>sR replyR eR kR.
                         Release lib xidR kQ' = ((Some sR, replyR, eR), kR) \<and>
                         TransactionID sR = TransactionID builtR \<and>
                         transactionIDs kR = []))))))"
proof (intro conjI impI)
  assume "(case given of
             None \<Rightarrow> NewSolicit lib (hardwareAddr c) (duid c) xid
           | Some m \<Rightarrow> Inr m) = Inr s0"
  then show "\<exists>s reply e c' rest.
         solicit lib xid c given = ((Some s, reply, e), c') \<and>
         calls (Conn c') =
           calls (Conn c) @ CallSetWriteDeadline # CallWriteTo (ToBytes lib s) # rest \<and>
         (\<forall>tid tids. transactionIDs c = tid # tids \<longrightarrow>
            TransactionID s = tid \<and> transactionIDs c' = tids) \<and>
         (transactionIDs c = [] \<longrightarrow>
            TransactionID s = TransactionID s0 \<and> transactionIDs c' = [])"
    by (rule solicit_pops)
next
  assume "NewRequestFromAdvertise lib (Some adv) (duid c) xid = Inr q0"
  then show "\<exists>q reply e c' rest.
         request lib xid c (Some adv) = Some ((Some q, reply, e), c') \<and>
         calls (Conn c') =
           calls (Conn c) @ CallSetWriteDeadline # CallWriteTo (ToBytes lib q) # rest \<and>
         (\<forall>tid tids. transactionIDs c = tid # tids \<longrightarrow>
            TransactionID q = tid \<and> transactionIDs c' = tids) \<and>
         (transactionIDs c = [] \<longrightarrow>
            TransactionID q = TransactionID q0 \<and> transactionIDs c' = [])"
    by (rule request_pops)
next
  assume "NewRequestFromAdvertise lib (advertise c) (duid c) xid = Inr rel0"
  then show "\<exists>rel reply e c' rest.
         Release lib xid c = ((Some rel, reply, e), c') \<and>
         calls (Conn c') =
           calls (Conn c) @ CallSetWriteDeadline # CallWriteTo (ToBytes lib rel) # rest \<and>
         (\<forall>tid tids. transactionIDs c = tid # tids \<longrightarrow>
            TransactionID rel = tid \<and> transactionIDs c' = tids) \<and>
         (transactionIDs c = [] \<longrightarrow>
            TransactionID rel = TransactionID rel0 \<and> transactionIDs c' = [])"
    by (rule Release_pops)
next
  assume "(case given of
             None \<Rightarrow> NewSolicit lib (hardwareAddr c) (duid c) xid
           | Some m \<Rightarrow> Inr m) = Inl e0"
  then show "solicit lib xid c given = ((None, None, Some e0), c)"
    by (rule solicit_constructor_fails)
next
  assume "NewRequestFromAdvertise lib advertise0 (duid c) xid = Inl e0"
  then show "request lib xid c advertise0 = Some ((None, None, Some e0), c)"
    by (rule request_constructor_fails)
next
  assume "NewRequestFromAdvertise lib (advertise c) (duid c) xid = Inl e0"
  then show "Release lib xid c = ((None, None, Some e0), c)"
    by (rule Release_constructor_fails)
next
  assume ids: "transactionIDs k = [a, b]"
    and built: "(case given of
                   None \<Rightarrow> NewSolicit lib (hardwareAddr k) (duid k) xidS
                 | Some m \<Rightarrow> Inr m) = Inr builtS"
  from solicit_pops [OF built] ids obtain sS replyS eS kS where
    S: "solicit lib xidS k given = ((Some sS, replyS, eS), kS)"
    and S1: "TransactionID sS = a" "transactionIDs kS = [b]"
    by auto
  have "\<exists>sQ replyQ eQ kQ.
          request lib xidQ kS' (Some advS) = Some ((Some sQ, replyQ, eQ), kQ) \<and>
          TransactionID sQ = b \<and> transactionIDs kQ = [] \<and>
          (\<forall>kQ' builtR.
             transactionIDs kQ' = transactionIDs kQ \<longrightarrow>
             NewRequestFromAdvertise lib (advertise kQ') (duid kQ') xidR = Inr builtR \<longrightarrow>
               (\<exists>sR replyR eR kR.
                  Release lib xidR kQ' = ((Some sR, replyR, eR), kR) \<and>
                  TransactionID sR = TransactionID builtR \<and>
                  transactionIDs kR = []))"
    if kS': "transactionIDs kS' = transactionIDs kS"
      and builtQ: "NewRequestFromAdvertise lib (Some advS) (duid kS') xidQ = Inr builtQ"
    for kS' advS builtQ
  proof -
    from request_pops [OF builtQ] kS' S1 obtain sQ replyQ eQ kQ where
      Q: "request lib xidQ kS' (Some advS) = Some ((Some sQ, replyQ, eQ), kQ)"
      and Q1: "TransactionID sQ = b" "transactionIDs kQ = []"
      by auto
    have "\<exists>sR replyR eR kR.
            Release lib xidR kQ' = ((Some sR, replyR, eR), kR) \<and>
            TransactionID sR = TransactionID builtR \<and> transactionIDs kR = []"
      if kQ': "transactionIDs kQ' = transactionIDs kQ"
        and builtR: "NewRequestFromAdvertise lib (advertise kQ') (duid kQ') xidR = Inr builtR"
      for kQ' builtR
      using Release_pops [OF builtR] kQ' Q1 by auto
    with Q Q1 show ?thesis by blast
  qed
  with S S1 show "\<exists>sS replyS eS kS.
         solicit lib xidS k given = ((Some sS, replyS, eS), kS) \<and>
         TransactionID sS = a \<and> transactionIDs kS = [b] \<and>
         (\<forall>kS' advS builtQ.
            transactionIDs kS' = transactionIDs kS \<longrightarrow>
            NewRequestFromAdvertise lib (Some advS) (duid kS') xidQ = Inr builtQ \<longrightarrow>
              (\<exists>sQ replyQ eQ kQ.
                 request lib xidQ kS' (Some advS) = Some ((Some sQ, replyQ, eQ), kQ) \<and>
                 TransactionID sQ = b \<and> transactionIDs kQ = [] \<and>
                 (\<forall>kQ' builtR.
                    transactionIDs kQ' = transactionIDs kQ \<longrightarrow>
                    NewRequestFromAdvertise lib (advertise kQ') (duid kQ') xidR = Inr builtR \<longrightarrow>
                      (\<exists>sR replyR eR kR.
                         Release lib xidR kQ' = ((Some sR, replyR, eR), kR) \<and>
                         TransactionID sR = TransactionID builtR \<and>
                         transactionIDs kR = []))))"
    by blast
qed


theorem transactionIDs_consumed_in_order_witness:
  "(\<exists>rel reply e c' rest.
      Release specLibrary (9, 9, 4) queuedReleaseClient = ((Some rel, reply, e), c') \<and>
      TransactionID rel = (3, 3, 3) \<and> transactionIDs c' = [] \<and>
      calls (Conn c') =
        CallSetWriteDeadline # CallWriteTo (ToBytes specLibrary rel) # rest) \<and>
   (\<exists>sS replyS eS kS sQ replyQ eQ kQ sR replyR eR kR.
      solicit specLibrary (9, 9, 1) leaseClient None = ((Some sS, replyS, eS), kS) \<and>
      TransactionID sS = (1, 1, 1) \<and>
      request specLibrary (9, 9, 2) (kS\<lparr>advertise := Some advertise111\<rparr>) (Some advertise111) =
        Some ((Some sQ, replyQ, eQ), kQ) \<and>
      TransactionID sQ = (2, 2, 2) \<and>
      Release specLibrary (9, 9, 3) kQ = ((Some sR, replyR, eR), kR) \<and>
      TransactionID sR = (9, 9, 3) \<and> transactionIDs kR = [])"
proof (intro conjI)
  have built: "NewRequestFromAdvertise specLibrary (advertise queuedReleaseClient)
                 (duid queuedReleaseClient) (9, 9, 4) =
               Inr \<lparr>MessageType = MessageTypeRequest, TransactionID = (9, 9, 4),
                    Options = [OptionClientID (duid queuedReleaseClient)]\<rparr>"
    by (simp add: queuedReleaseClient_fields specLibrary_request)
  from transactionIDs_consumed_in_order
         [where lib = specLibrary and c = queuedReleaseClient and xid = "(9, 9, 4)",
          THEN conjunct2, THEN conjunct2, THEN conjunct1, THEN mp, OF built]
  show "\<exists>rel reply e c' rest.
      Release specLibrary (9, 9, 4) queuedReleaseClient = ((Some rel, reply, e), c') \<and>
      TransactionID rel = (3, 3, 3) \<and> transactionIDs c' = [] \<and>
      calls (Conn c') =
        CallSetWriteDeadline # CallWriteTo (ToBytes specLibrary rel) # rest"
    by (simp add: queuedReleaseClient_fields) blast
next
  have built: "(case None of
                  None \<Rightarrow> NewSolicit specLibrary (hardwareAddr leaseClient) (duid leaseClient)
                            (9, 9, 1)
                | Some m \<Rightarrow> Inr m) =
               Inr \<lparr>MessageType = MessageTypeSolicit, TransactionID = (9, 9, 1),
                    Options = [OptionClientID (duid leaseClient)]\<rparr>"
    by (simp add: specLibrary_def newSolicit_def)
  from transactionIDs_consumed_in_order
         [where lib = specLibrary and k = leaseClient and xidS = "(9, 9, 1)"
            and xidQ = "(9, 9, 2)" and xidR = "(9, 9, 3)" and given = None,
          THEN conjunct2, THEN conjunct2, THEN conjunct2, THEN conjunct2, THEN conjunct2,
          THEN conjunct2, THEN mp, OF leaseClient_ids, THEN mp, OF built]
  obtain sS replyS eS kS where
    S: "solicit specLibrary (9, 9, 1) leaseClient None = ((Some sS, replyS, eS), kS)"
    "TransactionID sS = (1, 1, 1)"
    and nextQ: "\<And>kS' advS builtQ.
      transactionIDs kS' = transactionIDs kS \<Longrightarrow>
      NewRequestFromAdvertise specLibrary (Some advS) (duid kS') (9, 9, 2) = Inr builtQ \<Longrightarrow>
        \<exists>sQ replyQ eQ kQ.
          request specLibrary (9, 9, 2) kS' (Some advS) = Some ((Some sQ, replyQ, eQ), kQ) \<and>
          TransactionID sQ = (2, 2, 2) \<and> transactionIDs kQ = [] \<and>
          (\<forall>kQ' builtR.
             transactionIDs kQ' = transactionIDs kQ \<longrightarrow>
             NewRequestFromAdvertise specLibrary (advertise kQ') (duid kQ') (9, 9, 3) =
               Inr builtR \<longrightarrow>
               (\<exists>sR replyR eR kR.
                  Release specLibrary (9, 9, 3) kQ' = ((Some sR, replyR, eR), kR) \<and>
                  TransactionID sR = TransactionID builtR \<and> transactionIDs kR = []))"
    by blast
  let ?k1 = "kS\<lparr>advertise := Some advertise111\<rparr>"
  have "transactionIDs ?k1 = transactionIDs kS"
    by simp
  from nextQ [OF this specLibrary_request]
  obtain sQ replyQ eQ kQ where
    Q: "request specLibrary (9, 9, 2) ?k1 (Some advertise111) = Some ((Some sQ, replyQ, eQ), kQ)"
    "TransactionID sQ = (2, 2, 2)"
    and nextR: "\<And>kQ' builtR.
      transactionIDs kQ' = transactionIDs kQ \<Longrightarrow>
      NewRequestFromAdvertise specLibrary (advertise kQ') (duid kQ') (9, 9, 3) = Inr builtR \<Longrightarrow>
        \<exists>sR replyR eR kR.
          Release specLibrary (9, 9, 3) kQ' = ((Some sR, replyR, eR), kR) \<and>
          TransactionID sR = TransactionID builtR \<and> transactionIDs kR = []"
    by blast
  from request_keeps [OF Q(1)] have "advertise kQ = Some advertise111"
    by simp
  then have "NewRequestFromAdvertise specLibrary (advertise kQ) (duid kQ) (9, 9, 3) =
               Inr \<lparr>MessageType = MessageTypeRequest, TransactionID = (9, 9, 3),
                    Options = [OptionClientID (duid kQ)]\<rparr>"
    by (simp add: specLibrary_request)
  from nextR [OF refl this]
  obtain sR replyR eR kR where
    "Release specLibrary (9, 9, 3) kQ = ((Some sR, replyR, eR), kR)"
    "TransactionID sR = (9, 9, 3)" "transactionIDs kR = []"
    by auto
  with S Q show "\<exists>sS replyS eS kS sQ replyQ eQ kQ sR replyR eR kR.
      solicit specLibrary (9, 9, 1) leaseClient None = ((Some sS, replyS, eS), kS) \<and>
      TransactionID sS = (1, 1, 1) \<and>
      request specLibrary (9, 9, 2) (kS\<lparr>advertise := Some advertise111\<rparr>) (Some advertise111) =
        Some ((Some sQ, replyQ, eQ), kQ) \<and>
      TransactionID sQ = (2, 2, 2) \<and>
      Release specLibrary (9, 9, 3) kQ = ((Some sR, replyR, eR), kR) \<and>
      TransactionID sR = (9, 9, 3) \<and> transactionIDs kR = []"
    by blast
qed

text \<open>
  C5 as it is stated, for each call of \<open>solicit\<close>, \<open>request\<close> and \<open>Release\<close>, does not
  hold: \<open>Release\<close> on a client with two queued TransactionIDs and no Advertise retained
  fails in its constructor (lines 292 to 295) before line 298; both TransactionIDs are
  still queued and nothing has been written.
\<close>

theorem transactionIDs_kept_when_constructor_fails:
  "transactionIDs unboundQueuedClient = [(1, 1, 1), (2, 2, 2)] \<and>
   Release specLibrary (9, 9, 9) unboundQueuedClient =
     ((None, None, Some NoActiveLease), unboundQueuedClient) \<and>
   transactionIDs (snd (Release specLibrary (9, 9, 9) unboundQueuedClient)) =
     [(1, 1, 1), (2, 2, 2)] \<and>
   calls (Conn (snd (Release specLibrary (9, 9, 9) unboundQueuedClient))) = []"
  by (simp add: Release_def unboundQueuedClient_def newClient_def specLibrary_def
        newRequestFromAdvertise_def)

subsection \<open>Release without an Advertise\<close>

text \<open>
  C9: on a client that has retained no Advertise, with a constructor that rejects an
  absent Advertise with \<open>NoActiveLease\<close>, \<open>Release\<close> fails with that error and the
  client is as before: no call is made on the connection, nothing is written and
  nothing is read.
\<close>

theorem Release_without_advertise:
  assumes "advertise c = None"
    and "NewRequestFromAdvertise lib None (duid c) xid = Inl NoActiveLease"
  shows "Release lib xid c = ((None, None, Some NoActiveLease), c) \<and>
         calls (Conn (snd (Release lib xid c))) = calls (Conn c) \<and>
         inbound (Conn (snd (Release lib xid c))) = inbound (Conn c)"
  using assms by (simp add: Release_def)

theorem Release_without_advertise_witness:
  "advertise solicitingClient = None \<and>
   Release specLibrary (9, 9, 9) solicitingClient =
     ((None, None, Some NoActiveLease), solicitingClient) \<and>
   calls (Conn (snd (Release specLibrary (9, 9, 9) solicitingClient))) = [] \<and>
   inbound (Conn (snd (Release specLibrary (9, 9, 9) solicitingClient))) = [Inr [2, 0, 0, 7]]"
proof -
  have a: "advertise solicitingClient = None"
    by (simp add: solicitingClient_def newClient_def)
  have b: "NewRequestFromAdvertise specLibrary None (duid solicitingClient) (9, 9, 9) =
             Inl NoActiveLease"
    by (simp add: specLibrary_def newRequestFromAdvertise_def)
  have c: "calls (Conn solicitingClient) = []" "inbound (Conn solicitingClient) = [Inr [2, 0, 0, 7]]"
    by (simp_all add: solicitingClient_def newClient_def)
  from Release_without_advertise [OF a b] a c show ?thesis
    by simp
qed

subsection \<open>The identity association that solicit adds\<close>

text \<open>
  C10: the message that \<open>solicit\<close> sends is the message built, or the one supplied by
  the caller, with the identity association of IA id 0, 0, 0, 1 appended to its options,
  and it is the message written to the connection. A supplied Solicit is always sent,
  with one identity association more than it came with.
\<close>

theorem solicit_appends_IAPD:
  "(solicit lib xid c solicit0 = ((Some s, reply, e), c') \<longrightarrow>
      (\<exists>s0 rest.
         (case solicit0 of
            None \<Rightarrow> NewSolicit lib (hardwareAddr c) (duid c) xid
          | Some m \<Rightarrow> Inr m) = Inr s0 \<and>
         Options s = Options s0 @ [solicitIAPD] \<and>
         calls (Conn c') =
           calls (Conn c) @ CallSetWriteDeadline # CallWriteTo (ToBytes lib s) # rest)) \<and>
   (\<exists>s reply e c'.
      solicit lib xid c (Some supplied) = ((Some s, reply, e), c') \<and>
      Options s = Options supplied @ [solicitIAPD] \<and>
      length (IAPD (Options s)) = length (IAPD (Options supplied)) + 1)"
proof (intro conjI impI)
  assume "solicit lib xid c solicit0 = ((Some s, reply, e), c')"
  from solicit_sent [OF this] obtain s0 r where
    s0: "(case solicit0 of
            None \<Rightarrow> NewSolicit lib (hardwareAddr c) (duid c) xid
          | Some m \<Rightarrow> Inr m) = Inr s0"
    and s: "s = AddOption (stamp c s0) solicitIAPD"
    and r: "sendReceive lib (popped c) (Some s) MessageTypeNone = (r, c')"
    by blast
  from s have "Options s = Options s0 @ [solicitIAPD]"
    by (simp add: AddOption_def stamp_Options)
  with s0 sendReceive_calls [OF r]
  show "\<exists>s0 rest.
         (case solicit0 of
            None \<Rightarrow> NewSolicit lib (hardwareAddr c) (duid c) xid
          | Some m \<Rightarrow> Inr m) = Inr s0 \<and>
         Options s = Options s0 @ [solicitIAPD] \<and>
         calls (Conn c') =
           calls (Conn c) @ CallSetWriteDeadline # CallWriteTo (ToBytes lib s) # rest"
    by (auto simp: popped_Conn)
next
  let ?s = "AddOption (stamp c supplied) solicitIAPD"
  obtain r c2 where "sendReceive lib (popped c) (Some ?s) MessageTypeNone = (r, c2)"
    by (cases "sendReceive lib (popped c) (Some ?s) MessageTypeNone") blast
  then have "solicit lib xid c (Some supplied) = ((Some ?s, replyOf r, errOf r), c2)"
    by (simp add: solicit_unfold)
  moreover have "Options ?s = Options supplied @ [solicitIAPD]"
    by (simp add: AddOption_def stamp_Options)
  moreover from this have "length (IAPD (Options ?s)) = length (IAPD (Options supplied)) + 1"
    by (simp add: IAPD_append solicitIAPD_def)
  ultimately show "\<exists>s reply e c'.
      solicit lib xid c (Some supplied) = ((Some s, reply, e), c') \<and>
      Options s = Options supplied @ [solicitIAPD] \<and>
      length (IAPD (Options s)) = length (IAPD (Options supplied)) + 1"
    by blast
qed

theorem solicit_appends_IAPD_witness:
  "\<exists>s reply e c' rest.
     solicit specLibrary (9, 9, 1) solicitingClient (Some suppliedSolicit) =
       ((Some s, reply, e), c') \<and>
     Options s =
       [OptionClientID [0, 3, 0, 1],
        OptionIAPD \<lparr>IaId = [0, 0, 0, 5], T1 = 0, T2 = 0, PDOptions = []\<rparr>,
        OptionIAPD \<lparr>IaId = [0, 0, 0, 1], T1 = 0, T2 = 0, PDOptions = []\<rparr>] \<and>
     length (IAPD (Options s)) = 2 \<and>
     calls (Conn c') =
       calls (Conn solicitingClient) @
         CallSetWriteDeadline # CallWriteTo (ToBytes specLibrary s) # rest"
proof -
  note T = solicit_appends_IAPD [of specLibrary "(9, 9, 1)" solicitingClient "Some suppliedSolicit"
             _ _ _ _ suppliedSolicit]
  from T [THEN conjunct2] obtain s reply e c' where
    run: "solicit specLibrary (9, 9, 1) solicitingClient (Some suppliedSolicit) =
            ((Some s, reply, e), c')"
    and opts: "Options s = Options suppliedSolicit @ [solicitIAPD]"
    and len: "length (IAPD (Options s)) = length (IAPD (Options suppliedSolicit)) + 1"
    by blast
  from solicit_appends_IAPD
         [of specLibrary "(9, 9, 1)" solicitingClient "Some suppliedSolicit" s reply e c',
          THEN conjunct1, rule_format, OF run]
  obtain rest where
    "calls (Conn c') =
       calls (Conn solicitingClient) @
         CallSetWriteDeadline # CallWriteTo (ToBytes specLibrary s) # rest"
    by auto
  with run opts len show ?thesis
    by (simp add: suppliedSolicit_def solicitIAPD_def)
qed

section \<open>ObtainOrRenew\<close>

subsection \<open>The configuration read from a Reply\<close>

lemma dnsLoop_RenewAfter: "RenewAfter (dnsLoop lib ips cfg0) = RenewAfter cfg0"
  by (induction ips arbitrary: cfg0) simp_all

lemma dnsLoop_Prefixes: "Prefixes (dnsLoop lib ips cfg0) = Prefixes cfg0"
  by (induction ips arbitrary: cfg0) simp_all

lemma minDeadline_Cons:
  "minDeadline now (ia # ias) =
     (if ias = [] then Add now (T1 ia) else min (Add now (T1 ia)) (minDeadline now ias))"
  by (simp add: minDeadline_def)

lemma iapdLoop_Cons:
  "iapdLoop (fixedClock now) k (ia # ias) cfg0 = Some cfg1 \<Longrightarrow>
     \<exists>c1. iapdLoop (fixedClock now) (Suc k) ias c1 = Some cfg1 \<and>
          RenewAfter c1 =
            (if Add now (T1 ia) < RenewAfter cfg0 \<or> RenewAfter cfg0 = zeroTime
             then Add now (T1 ia) else RenewAfter cfg0)"
proof -
  have clock: "fixedClock now k = now"
    by (simp add: fixedClock_def)
  assume "iapdLoop (fixedClock now) k (ia # ias) cfg0 = Some cfg1"
  then show ?thesis
    by (auto simp: Let_def clock Before_def IsZero_def split: option.splits if_splits)
qed

lemma iapdLoop_RenewAfter:
  assumes "iapdLoop (fixedClock now) k ias cfg0 = Some cfg1"
    and "\<forall>ia\<in>set ias. Add now (T1 ia) \<noteq> zeroTime"
  shows "RenewAfter cfg1 =
           (if ias = [] then RenewAfter cfg0
            else if RenewAfter cfg0 = zeroTime then minDeadline now ias
            else min (RenewAfter cfg0) (minDeadline now ias))"
  using assms
proof (induction ias arbitrary: k cfg0)
  case Nil
  then show ?case by simp
next
  case (Cons ia ias)
  define t where "t = Add now (T1 ia)"
  define r0 where "r0 = RenewAfter cfg0"
  from iapdLoop_Cons [OF Cons.prems(1)] obtain c1 where
    rest: "iapdLoop (fixedClock now) (Suc k) ias c1 = Some cfg1"
    and r1: "RenewAfter c1 = (if t < r0 \<or> r0 = zeroTime then t else r0)"
    by (auto simp: t_def r0_def)
  from Cons.prems(2) have nz: "t \<noteq> zeroTime"
    and nzs: "\<forall>ia\<in>set ias. Add now (T1 ia) \<noteq> zeroTime"
    by (simp_all add: t_def)
  from r1 nz have r1nz: "RenewAfter c1 \<noteq> zeroTime"
    by (auto split: if_splits)
  from Cons.IH [OF rest nzs] r1nz
  have "RenewAfter cfg1 =
          (if ias = [] then RenewAfter c1 else min (RenewAfter c1) (minDeadline now ias))"
    by simp
  also have "\<dots> = (if r0 = zeroTime then (if ias = [] then t else min t (minDeadline now ias))
                  else min r0 (if ias = [] then t else min t (minDeadline now ias)))"
    unfolding r1 by (auto simp: min_def)
  finally show ?case
    by (simp add: minDeadline_Cons t_def r0_def)
qed

lemma iapdLoop_Nil_Prefixes: "iapdLoop clock k [] cfg0 = Some cfg1 \<Longrightarrow> cfg1 = cfg0"
  by simp

lemma extractConfig_Some:
  "extractConfig lib clock reply = Some newCfg \<Longrightarrow>
     \<exists>cfg1. iapdLoop clock 0 (IAPD (Options reply)) zeroConfig = Some cfg1 \<and>
            RenewAfter newCfg = RenewAfter cfg1 \<and> Prefixes newCfg = Prefixes cfg1"
  by (auto simp: extractConfig_def dnsLoop_RenewAfter dnsLoop_Prefixes split: option.splits)

lemma iapdLoop_two:
  assumes "iapdLoop (fixedClock now) k [ia1, ia2] cfg0 = Some cfg1"
    and "RenewAfter cfg0 = zeroTime" and "T1 ia2 < T1 ia1"
  shows "RenewAfter cfg1 = Add now (T1 ia2)"
proof -
  have clock: "fixedClock now k = now" "fixedClock now (Suc k) = now"
    by (simp_all add: fixedClock_def)
  from assms show ?thesis
    by (auto simp: Let_def clock Add_def Before_def IsZero_def split: option.splits if_splits)
qed




subsection \<open>The steps of ObtainOrRenew\<close>




lemma ObtainOrRenew_solicit_fails:
  "solicitStep lib xid1 c = ((sol, adv, Some e), c1) \<Longrightarrow>
     ObtainOrRenew lib xid1 xid2 c = Some (True, c1\<lparr>err := Some e\<rparr>)"
  by (simp add: ObtainOrRenew_def solicitStep_def)

lemma ObtainOrRenew_request_fails:
  "solicitStep lib xid1 c = ((sol, adv, None), c1) \<Longrightarrow>
   request lib xid2 (c1\<lparr>advertise := adv\<rparr>) adv = Some ((req, rep, Some e), c3) \<Longrightarrow>
     ObtainOrRenew lib xid1 xid2 c = Some (True, c3\<lparr>err := Some e\<rparr>)"
  by (simp add: ObtainOrRenew_def solicitStep_def)


lemma solicitStep_keeps:
  "solicitStep lib xid1 c = (x, c1) \<Longrightarrow> cfg c1 = cfg c \<and> err c1 = None"
  by (auto simp: solicitStep_def dest!: solicit_keeps)




subsection \<open>RenewAfter\<close>

text \<open>
  C6, as the code has it: with a clock that reads \<open>now\<close>, the configuration read from
  a Reply has the zero timestamp as \<open>RenewAfter\<close> and no prefixes when the Reply has no
  identity association; when it has some and none of the deadlines \<open>now + T1\<close> is the
  zero timestamp, \<open>RenewAfter\<close> is the earliest of these deadlines. For two
  associations with T1 of one hour and of thirty minutes, in this order, \<open>RenewAfter\<close>
  is \<open>now\<close> plus thirty minutes, for every \<open>now\<close>.
\<close>

theorem extractConfig_RenewAfter:
  "extractConfig lib (fixedClock now) reply = Some newCfg \<longrightarrow>
     (IAPD (Options reply) = [] \<longrightarrow> RenewAfter newCfg = zeroTime \<and> Prefixes newCfg = []) \<and>
     ((\<forall>ia\<in>set (IAPD (Options reply)). Add now (T1 ia) \<noteq> zeroTime) \<longrightarrow>
      IAPD (Options reply) \<noteq> [] \<longrightarrow>
        RenewAfter newCfg = minDeadline now (IAPD (Options reply))) \<and>
     (\<forall>ia1 ia2. IAPD (Options reply) = [ia1, ia2] \<longrightarrow> T1 ia1 = Hour \<longrightarrow>
        T1 ia2 = 30 * Minute \<longrightarrow> RenewAfter newCfg = Add now (30 * Minute))"
proof (intro impI conjI allI)
  assume ex: "extractConfig lib (fixedClock now) reply = Some newCfg"
  from extractConfig_Some [OF ex] obtain cfg1 where
    loop: "iapdLoop (fixedClock now) 0 (IAPD (Options reply)) zeroConfig = Some cfg1"
    and eq: "RenewAfter newCfg = RenewAfter cfg1" "Prefixes newCfg = Prefixes cfg1"
    by blast
  {
    assume "IAPD (Options reply) = []"
    with loop eq show "RenewAfter newCfg = zeroTime" "Prefixes newCfg = []"
      by (auto simp: zeroConfig_def)
  }
  {
    assume "\<forall>ia\<in>set (IAPD (Options reply)). Add now (T1 ia) \<noteq> zeroTime"
      and "IAPD (Options reply) \<noteq> []"
    with iapdLoop_RenewAfter [OF loop] eq
    show "RenewAfter newCfg = minDeadline now (IAPD (Options reply))"
      by (simp add: zeroConfig_def)
  }
  {
    fix ia1 ia2
    assume "IAPD (Options reply) = [ia1, ia2]" "T1 ia1 = Hour" "T1 ia2 = 30 * Minute"
    with loop eq iapdLoop_two [of now 0 ia1 ia2 zeroConfig cfg1]
    show "RenewAfter newCfg = Add now (30 * Minute)"
      by (simp add: zeroConfig_def Hour_def Minute_def)
  }
qed

lemma twoIAPDReply_extract:
  "extractConfig specLibrary (fixedClock 1000) twoIAPDReply =
     Some \<lparr>RenewAfter = 1000 + 30 * Minute,
           Prefixes = [\<lparr>IP = [32, 1, 13, 184], Mask = [255, 255, 255, 255, 255, 255]\<rparr>],
           DNS = []\<rparr>"
  by (simp add: extractConfig_def twoIAPDReply_def zeroConfig_def fixedClock_def
        Add_def zeroTime_def Minute_def Hour_def Before_def IsZero_def Let_def)

lemma twoIAPDReply_deadlines:
  "\<forall>ia\<in>set (IAPD (Options twoIAPDReply)). Add 1000 (T1 ia) \<noteq> zeroTime"
  by (simp add: twoIAPDReply_def Add_def zeroTime_def Minute_def Hour_def)

theorem extractConfig_RenewAfter_witness:
  "extractConfig specLibrary (fixedClock 1000) twoIAPDReply =
     Some \<lparr>RenewAfter = 1000 + 30 * Minute,
           Prefixes = [\<lparr>IP = [32, 1, 13, 184], Mask = [255, 255, 255, 255, 255, 255]\<rparr>],
           DNS = []\<rparr> \<and>
   map T1 (IAPD (Options twoIAPDReply)) = [Hour, 30 * Minute] \<and>
   Add 1000 Hour \<noteq> zeroTime \<and> Add 1000 (30 * Minute) \<noteq> zeroTime \<and>
   minDeadline 1000 (IAPD (Options twoIAPDReply)) = 1000 + 30 * Minute"
proof -
  have t1s: "map T1 (IAPD (Options twoIAPDReply)) = [Hour, 30 * Minute]"
    by (simp add: twoIAPDReply_def)
  have nz: "Add 1000 Hour \<noteq> zeroTime" "Add 1000 (30 * Minute) \<noteq> zeroTime"
    by (simp_all add: Add_def zeroTime_def Minute_def Hour_def)
  have ne: "IAPD (Options twoIAPDReply) \<noteq> []"
    by (simp add: twoIAPDReply_def)
  from extractConfig_RenewAfter
         [of specLibrary 1000 twoIAPDReply, THEN mp, OF twoIAPDReply_extract,
          THEN conjunct2, THEN conjunct1, THEN mp, OF twoIAPDReply_deadlines, THEN mp, OF ne]
  have "minDeadline 1000 (IAPD (Options twoIAPDReply)) = 1000 + 30 * Minute"
    by simp
  with twoIAPDReply_extract t1s nz show ?thesis
    by blast
qed

text \<open>
  C6 as it is stated, for every Reply and every \<open>now\<close>, does not hold: \<open>RenewAfter\<close> is
  not always the earliest deadline.
  With the clock at the zero timestamp and associations of T1 zero and thirty minutes,
  the first deadline is the zero timestamp, which the loop takes for "not set yet": the
  second deadline replaces it, and \<open>RenewAfter\<close> is thirty minutes after the zero
  timestamp although the earliest deadline is the zero timestamp itself.
\<close>

theorem extractConfig_RenewAfter_not_earliest:
  "extractConfig specLibrary (fixedClock zeroTime) zeroDeadlineReply =
     Some \<lparr>RenewAfter = Add zeroTime (30 * Minute), Prefixes = [], DNS = []\<rparr> \<and>
   minDeadline zeroTime (IAPD (Options zeroDeadlineReply)) = Add zeroTime 0 \<and>
   Add zeroTime 0 \<noteq> Add zeroTime (30 * Minute)"
  by (simp add: extractConfig_def zeroDeadlineReply_def zeroConfig_def fixedClock_def
        minDeadline_def Add_def zeroTime_def Minute_def Before_def IsZero_def Let_def)

subsection \<open>A failed ObtainOrRenew\<close>

lemma silentClient_solicit:
  "stepError (solicitStep specLibrary (9, 9, 1) silentClient) = Some Timeout"
  by code_simp

lemma silentClient_Config: "Config silentClient = heldConfig"
  by (simp add: Config_def silentClient_def)

lemma halfClient_solicit:
  "stepError (solicitStep specLibrary (9, 9, 1) halfClient) = None"
  by code_simp

lemma halfClient_request:
  "map_option stepError (requestStep specLibrary (9, 9, 1) (9, 9, 2) halfClient) =
     Some (Some (TransportError ''network down''))"
  by code_simp

lemma halfClient_Config: "Config halfClient = heldConfig"
  by (simp add: Config_def halfClient_def)

text \<open>
  C7: when the Solicit step of \<open>ObtainOrRenew\<close> fails with an error, or the Solicit
  step succeeds and the Request step fails with an error, \<open>ObtainOrRenew\<close> returns, the
  error accessor gives that error and the Config is the one held before the call.
\<close>

theorem ObtainOrRenew_failure_keeps_Config:
  "(stepError (solicitStep lib xid1 c) = Some e \<longrightarrow>
      (\<exists>c'. ObtainOrRenew lib xid1 xid2 c = Some (True, c') \<and> Err c' = Some e \<and>
            Config c' = Config c)) \<and>
   (stepError (solicitStep lib xid1 c) = None \<longrightarrow>
    map_option stepError (requestStep lib xid1 xid2 c) = Some (Some e) \<longrightarrow>
      (\<exists>c'. ObtainOrRenew lib xid1 xid2 c = Some (True, c') \<and> Err c' = Some e \<and>
            Config c' = Config c))"
proof (intro conjI impI)
  obtain sol adv e1 c1 where S: "solicitStep lib xid1 c = ((sol, adv, e1), c1)"
    by (metis prod.collapse)
  {
    assume "stepError (solicitStep lib xid1 c) = Some e"
    with S have "e1 = Some e" by (simp add: stepError_def)
    with S ObtainOrRenew_solicit_fails [of lib xid1 c sol adv e c1 xid2] solicitStep_keeps [OF S]
    show "\<exists>c'. ObtainOrRenew lib xid1 xid2 c = Some (True, c') \<and> Err c' = Some e \<and>
            Config c' = Config c"
      by (simp add: Err_def Config_def)
  }
  {
    assume "stepError (solicitStep lib xid1 c) = None"
      and Q: "map_option stepError (requestStep lib xid1 xid2 c) = Some (Some e)"
    with S have e1: "e1 = None" by (simp add: stepError_def)
    from Q S obtain req rep c3 where
      R: "request lib xid2 (c1\<lparr>advertise := adv\<rparr>) adv = Some ((req, rep, Some e), c3)"
      by (auto simp: requestStep_def stepError_def)
    from request_keeps [OF R] solicitStep_keeps [OF S] have "cfg c3 = cfg c"
      by simp
    with S e1 R ObtainOrRenew_request_fails [of lib xid1 c sol adv c1 xid2 req rep e c3]
    show "\<exists>c'. ObtainOrRenew lib xid1 xid2 c = Some (True, c') \<and> Err c' = Some e \<and>
            Config c' = Config c"
      by (simp add: Err_def Config_def)
  }
qed

theorem ObtainOrRenew_failure_keeps_Config_witness:
  "(\<exists>c'. ObtainOrRenew specLibrary (9, 9, 1) (9, 9, 2) silentClient = Some (True, c') \<and>
         Err c' = Some Timeout \<and> Config c' = heldConfig) \<and>
   (\<exists>c'. ObtainOrRenew specLibrary (9, 9, 1) (9, 9, 2) halfClient = Some (True, c') \<and>
         Err c' = Some (TransportError ''network down'') \<and> Config c' = heldConfig)"
  using ObtainOrRenew_failure_keeps_Config
          [of specLibrary "(9, 9, 1)" silentClient Timeout "(9, 9, 2)",
           THEN conjunct1, rule_format, OF silentClient_solicit]
        ObtainOrRenew_failure_keeps_Config
          [of specLibrary "(9, 9, 1)" halfClient "TransportError ''network down''" "(9, 9, 2)",
           THEN conjunct2, rule_format, OF halfClient_solicit halfClient_request]
  by (simp only: silentClient_Config halfClient_Config)

subsection \<open>The value that ObtainOrRenew returns\<close>





end
